theory Spec2Isabelle
  imports Main "HOL-Library.List_Lexorder" "HOL-Library.Product_Lexorder"
begin

section \<open>Strings and paths\<close>

text \<open>
  A Python \<open>str\<close> is a sequence of Unicode code points and \<open>len\<close> counts code points,
  so a string is modelled as a list of code points (natural numbers). ASCII literals of
  the source are written \<open>lit ''...''\<close>. Logging calls of the source have no influence
  on any returned value and are left out.
\<close>

type_synonym str = "nat list"

definition lit :: "string \<Rightarrow> str" where
  "lit s = map of_char s"

text \<open>\<open>sep.join(xs)\<close>\<close>

fun join :: "str \<Rightarrow> str list \<Rightarrow> str" where
  "join sep [] = []"
| "join sep [x] = x"
| "join sep (x # y # ys) = x @ sep @ join sep (y # ys)"

text \<open>\<open>s.split(sep)\<close> for a one-character separator\<close>

fun split_on :: "nat \<Rightarrow> str \<Rightarrow> str list" where
  "split_on sep [] = [[]]"
| "split_on sep (c # cs) =
     (if c = sep then [] # split_on sep cs
      else (case split_on sep cs of w # ws \<Rightarrow> (c # w) # ws | [] \<Rightarrow> [[c]]))"

text \<open>\<open>s.rfind(c)\<close>: the last index of \<open>c\<close>, or \<open>-1\<close>\<close>

fun rfind :: "nat \<Rightarrow> str \<Rightarrow> int" where
  "rfind c [] = -1"
| "rfind c (x # xs) =
     (let r = rfind c xs in if 0 \<le> r then r + 1 else if x = c then 0 else -1)"

text \<open>\<open>s[:n]\<close> for an arbitrary Python integer \<open>n\<close>: a negative \<open>n\<close> counts from the end.\<close>

definition slice_to :: "str \<Rightarrow> int \<Rightarrow> str" where
  "slice_to s n = (if 0 \<le> n then take (nat n) s else take (length s - nat (- n)) s)"

text \<open>\<open>str(n)\<close> for a non-negative integer (the values of \<open>len\<close>)\<close>

fun str_nat :: "nat \<Rightarrow> str" where
  "str_nat n = (if n < 10 then [48 + n] else str_nat (n div 10) @ [48 + n mod 10])"

declare str_nat.simps [simp del]

text \<open>
  \<open>str.lower()\<close>, code point by code point. The mapping is Python's on the code points
  below 256 (ASCII and Latin-1 capitals); other code points are left unchanged.
\<close>

definition lower_cp :: "nat \<Rightarrow> nat" where
  "lower_cp c = (if (65 \<le> c \<and> c \<le> 90) \<or> (192 \<le> c \<and> c \<le> 222 \<and> c \<noteq> 215) then c + 32 else c)"

definition lower :: "str \<Rightarrow> str" where
  "lower s = map lower_cp s"

text \<open>
  A \<open>pathlib\<close> path on a POSIX system is the tuple of its parts; the first part is the
  root (\<open>/\<close> or \<open>//\<close>) when the path is absolute. \<open>parts\<close> follows the parsing of
  \<open>PurePosixPath\<close>: split at \<open>/\<close>, drop empty components and \<open>.\<close>.
\<close>

type_synonym path = "str list"

definition splitroot :: "str \<Rightarrow> str \<times> str" where
  "splitroot p =
     (if take 1 p \<noteq> lit ''/'' then ([], p)
      else if take 1 (drop 1 p) \<noteq> lit ''/'' \<or> take 1 (drop 2 p) = lit ''/'' then (lit ''/'', drop 1 p)
      else (take 2 p, drop 2 p))"

definition parts :: "str \<Rightarrow> path" where
  "parts p =
     (let (root, rel) = splitroot p;
          parsed = filter (\<lambda>x. x \<noteq> [] \<and> x \<noteq> lit ''.'') (split_on 47 rel)
      in if root \<noteq> [] then root # parsed else parsed)"

definition has_root :: "path \<Rightarrow> bool" where
  "has_root p = (case p of [] \<Rightarrow> False | x # _ \<Rightarrow> take 1 x = lit ''/'')"

text \<open>\<open>path.name\<close>: the last part, unless the path is empty or only a root\<close>

definition path_name :: "path \<Rightarrow> str" where
  "path_name p = (let tail = (if has_root p then tl p else p) in if tail = [] then [] else last tail)"

text \<open>\<open>path.suffix\<close>: the name from its last dot, when that dot is neither first nor last\<close>

definition suffix_of_name :: "str \<Rightarrow> str" where
  "suffix_of_name name =
     (let i = rfind 46 name in if 0 < i \<and> i < int (length name) - 1 then drop (nat i) name else [])"

definition path_suffix :: "path \<Rightarrow> str" where
  "path_suffix p = suffix_of_name (path_name p)"

text \<open>\<open>str(path)\<close>\<close>

definition path_str :: "path \<Rightarrow> str" where
  "path_str p =
     (if p = [] then lit ''.''
      else if has_root p then hd p @ join (lit ''/'') (tl p)
      else join (lit ''/'') p)"

text \<open>\<open>path.relative_to(other)\<close>; \<open>None\<close> stands for the \<open>ValueError\<close> it raises\<close>

definition relative_to :: "path \<Rightarrow> path \<Rightarrow> path option" where
  "relative_to p other = (if take (length other) p = other then Some (drop (length other) p) else None)"

text \<open>
  The name of a directory entry on a POSIX system is not empty, holds no \<open>/\<close> and is not
  \<open>.\<close>. For paths made of such names \<open>parts\<close> undoes \<open>path_str\<close>.
\<close>

definition valid_name :: "str \<Rightarrow> bool" where
  "valid_name name = (name \<noteq> [] \<and> 47 \<notin> set name \<and> name \<noteq> lit ''.'')"

section \<open>Configuration\<close>

text \<open>
  The repository holds two variants of the program. Names without a suffix are those of
  \<open>src/app\<close>; the suffix \<open>_src\<close> marks the variant under \<open>src/src/app\<close>.
\<close>

definition SUPPORTED_EXTENSIONS :: "str set" where
  "SUPPORTED_EXTENSIONS = {lit ''.py'', lit ''.js'', lit ''.ts'', lit ''.md'', lit ''.txt'',
     lit ''.html'', lit ''.css'', lit ''.json'', lit ''.yaml'', lit ''.yml'', lit ''.java'',
     lit ''.c'', lit ''.cpp'', lit ''.h'', lit ''.hpp''}"

definition EXCLUSION_PATTERNS :: "str set" where
  "EXCLUSION_PATTERNS = {lit ''.git'', lit ''__pycache__'', lit ''node_modules'', lit ''.idea'',
     lit ''.vscode'', lit ''venv'', lit ''env'', lit ''dist'', lit ''build'', lit ''coverage''}"

definition MODEL_NAME_src :: str where
  "MODEL_NAME_src = lit ''gemini-2.0-flash''"

definition SUPPORTED_EXTENSIONS_src :: "str list" where
  "SUPPORTED_EXTENSIONS_src = [lit ''.py'', lit ''.md'', lit ''.txt'', lit ''.json'', lit ''.yml'',
     lit ''.yaml'', lit ''.html'', lit ''.css'', lit ''.js'']"

definition EXCLUSION_PATTERNS_src :: "str list" where
  "EXCLUSION_PATTERNS_src = [lit ''__pycache__'', lit ''.git'', lit ''venv'', lit ''.env'',
     lit ''node_modules'', lit ''*.pyc'', lit ''dist'', lit ''build'']"

section \<open>The filesystem\<close>

text \<open>
  The filesystem does not change during a run. An entry is a regular file, a directory
  with its children in the order the operating system lists them, or a directory whose
  listing raises \<open>PermissionError\<close>. A file records what \<open>read_text\<close> does on it under
  each of the two encodings the program uses: it returns text, raises
  \<open>UnicodeDecodeError\<close>, or raises another error (\<open>OSError\<close>).
\<close>

datatype read_result = Text str | UnicodeDecodeError | OSError

datatype file_body = Body (utf8: read_result) (latin1: read_result)

datatype node = File str file_body | Dir str "node list" | NoAccess str

datatype error = PermissionError path | NotADirectoryError path | FileNotFoundError path | ValueError str

fun node_name :: "node \<Rightarrow> str" where
  "node_name (File f b) = f"
| "node_name (Dir d cs) = d"
| "node_name (NoAccess d) = d"

fun is_file :: "node \<Rightarrow> bool" where
  "is_file (File f b) = True"
| "is_file (Dir d cs) = False"
| "is_file (NoAccess d) = False"

fun is_dir :: "node \<Rightarrow> bool" where
  "is_dir (File f b) = False"
| "is_dir (Dir d cs) = True"
| "is_dir (NoAccess d) = True"

text \<open>\<open>path.iterdir()\<close> on the entry found at \<open>path\<close>\<close>

fun iterdir :: "path \<Rightarrow> node \<Rightarrow> error + node list" where
  "iterdir p (Dir d cs) = Inr cs"
| "iterdir p (NoAccess d) = Inl (PermissionError p)"
| "iterdir p (File f b) = Inl (NotADirectoryError p)"

text \<open>
  A path handed on by a scan is paired with the entry it denotes, so that a later read
  of the path reads that entry.
\<close>

type_synonym located = "path \<times> node"

datatype encoding = UTF8 | Latin1

fun read_text :: "node \<Rightarrow> encoding \<Rightarrow> read_result" where
  "read_text (File f b) UTF8 = utf8 b"
| "read_text (File f b) Latin1 = latin1 b"
| "read_text (Dir d cs) enc = OSError"
| "read_text (NoAccess d) enc = OSError"

text \<open>
  What the path given on the command line denotes: nothing (\<open>None\<close>) or an entry. The
  name stored in that entry is not consulted; the program knows the root by its path.
\<close>

type_synonym target = "node option"

section \<open>Filesystem scanner of \<open>src/app/tools.py\<close>\<close>

fun should_exclude :: "path \<Rightarrow> bool" where
  "should_exclude [] = False"
| "should_exclude (part # rest) = (if part \<in> EXCLUSION_PATTERNS then True else should_exclude rest)"

text \<open>
  The loop over \<open>os.walk(dir_path)\<close>: the files of a directory in listing order, kept when
  their suffix is supported, then the walk of each subdirectory left after the pruning
  \<open>dirs[:] = [d for d in dirs if d not in EXCLUSION_PATTERNS]\<close>. \<open>os.walk\<close> swallows the
  error of a directory it cannot list.
\<close>

fun walk_files :: "path \<Rightarrow> node \<Rightarrow> located list" where
  "walk_files root (Dir d cs) =
     concat (map (\<lambda>c. if is_dir c then []
                       else if path_suffix (root @ [node_name c]) \<notin> SUPPORTED_EXTENSIONS then []
                       else [(root @ [node_name c], c)]) cs)
     @ concat (map (\<lambda>c. if is_dir c \<and> node_name c \<notin> EXCLUSION_PATTERNS
                         then walk_files (root @ [node_name c]) c else []) cs)"
| "walk_files root (NoAccess d) = []"
| "walk_files root (File f b) = []"

definition list_files :: "str \<Rightarrow> target \<Rightarrow> located list" where
  "list_files directory tgt =
     (case tgt of
        None \<Rightarrow> []
      | Some n \<Rightarrow> if \<not> is_dir n then [] else walk_files (parts directory) n)"

section \<open>Filesystem scanner of \<open>src/src/app/tools.py\<close>\<close>

text \<open>
  \<open>root.rglob("*")\<close> (CPython 3.8 to 3.12): the directories in pre-order, each yielding
  all its children; a directory that cannot be listed yields nothing.
\<close>

fun rglob :: "path \<Rightarrow> node \<Rightarrow> located list" where
  "rglob root (Dir d cs) =
     map (\<lambda>c. (root @ [node_name c], c)) cs
     @ concat (map (\<lambda>c. rglob (root @ [node_name c]) c) cs)"
| "rglob root (NoAccess d) = []"
| "rglob root (File f b) = []"

record FileSummary_src =
  relative_path :: str
  content_src :: str

definition truncate_content_src :: "int \<Rightarrow> str \<Rightarrow> str" where
  "truncate_content_src max_chars content =
     (if int (length content) > max_chars
      then slice_to content max_chars @ lit ''\<newline>... [Content Truncated] ...''
      else content)"

text \<open>The body of the loop of \<open>get_file_summaries\<close>: the summaries one path adds.\<close>

definition summarise_src :: "path \<Rightarrow> int \<Rightarrow> located \<Rightarrow> FileSummary_src list" where
  "summarise_src root max_chars fp =
     (let (file_path, n) = fp in
      if is_dir n \<or> (\<exists>part \<in> set file_path. part \<in> set EXCLUSION_PATTERNS_src) then []
      else if path_suffix file_path \<in> set SUPPORTED_EXTENSIONS_src then
        (case read_text n UTF8 of
           Text content \<Rightarrow>
             (case relative_to file_path root of
                Some rel_path \<Rightarrow>
                  [\<lparr>relative_path = path_str rel_path, content_src = truncate_content_src max_chars content\<rparr>]
              | None \<Rightarrow> [])
         | _ \<Rightarrow> [])
      else [])"

definition get_file_summaries_src :: "str \<Rightarrow> int \<Rightarrow> target \<Rightarrow> FileSummary_src list" where
  "get_file_summaries_src root_path max_chars tgt =
     (case tgt of
        None \<Rightarrow> []
      | Some n \<Rightarrow>
          foldl (\<lambda>summaries fp. summaries @ summarise_src (parts root_path) max_chars fp) []
            (rglob (parts root_path) n))"

section \<open>Content reader and file summaries of \<open>src/app\<close>\<close>

definition read_file_content :: "located \<Rightarrow> str option" where
  "read_file_content fp =
     (case read_text (snd fp) UTF8 of
        Text s \<Rightarrow> Some s
      | UnicodeDecodeError \<Rightarrow>
          (case read_text (snd fp) Latin1 of
             Text s \<Rightarrow> Some s
           | _ \<Rightarrow> None)
      | OSError \<Rightarrow> None)"

record FileSummary =
  path :: str
  extension :: str
  summary :: "str option"
  content :: "str option"

record READMEAgent =
  project_path :: str
  max_chars_per_file :: int
  model :: "str option"

text \<open>The truth value Python gives an optional string: \<open>None\<close> and \<open>""\<close> are false.\<close>

fun truthy :: "str option \<Rightarrow> bool" where
  "truthy None = False"
| "truthy (Some s) = (s \<noteq> [])"

text \<open>
  \<open>READMEAgent.__init__\<close>; \<open>api_key\<close> is the value of \<open>os.environ.get("GEMINI_API_KEY")\<close>.
  A configured model is recorded by its name.
\<close>

definition READMEAgent_init :: "str option \<Rightarrow> str \<Rightarrow> int \<Rightarrow> READMEAgent" where
  "READMEAgent_init api_key dir_arg max_arg =
     \<lparr>project_path = dir_arg, max_chars_per_file = max_arg,
      model = (if truthy api_key then Some (lit ''gemini-2.0-flash'') else None)\<rparr>"

definition truncate_content :: "int \<Rightarrow> str \<Rightarrow> str" where
  "truncate_content limit text =
     (if int (length text) > limit
      then slice_to text limit @ lit ''\<newline>...(truncated)...''
      else text)"

text \<open>The body of the loop of \<open>READMEAgent.get_file_summaries\<close>: the summaries one file adds.\<close>

definition summarise :: "READMEAgent \<Rightarrow> located \<Rightarrow> FileSummary list" where
  "summarise agent fp =
     (case read_file_content fp of
        None \<Rightarrow> []
      | Some text \<Rightarrow>
          if text = [] then []
          else
            (let rel_path = (case relative_to (fst fp) (parts (project_path agent)) of
                               Some rel \<Rightarrow> path_str rel
                             | None \<Rightarrow> path_name (fst fp))
             in [\<lparr>path = rel_path, extension = path_suffix (fst fp),
                  summary = Some (lit ''Content of '' @ rel_path),
                  content = Some (truncate_content (max_chars_per_file agent) text)\<rparr>]))"

definition get_file_summaries :: "READMEAgent \<Rightarrow> target \<Rightarrow> FileSummary list" where
  "get_file_summaries agent tgt =
     foldl (\<lambda>summaries fp. summaries @ summarise agent fp) [] (list_files (project_path agent) tgt)"

section \<open>Tree renderer of \<open>src/app/tools.py\<close>\<close>

text \<open>A loop that stops at the first exception: the results up to it are dropped.\<close>

fun collect :: "(error + 'a) list \<Rightarrow> error + 'a list" where
  "collect [] = Inr []"
| "collect (Inl e # rs) = Inl e"
| "collect (Inr x # rs) = (case collect rs of Inl e \<Rightarrow> Inl e | Inr xs \<Rightarrow> Inr (x # xs))"

text \<open>The children of the directory at \<open>p\<close>, filtered and sorted as in lines 127 to 130.\<close>

definition tree_entries :: "path \<Rightarrow> node list \<Rightarrow> node list" where
  "tree_entries p cs =
     sort_key (\<lambda>e. (is_file e, lower (node_name e)))
       (filter (\<lambda>e. node_name e \<notin> EXCLUSION_PATTERNS \<and> \<not> should_exclude (p @ [node_name e])) cs)"

lemma tree_entry_smaller:
  "iterdir p n = Inr cs \<Longrightarrow> entry \<in> set (tree_entries p cs) \<Longrightarrow> size entry < size n"
proof -
  assume l: "iterdir p n = Inr cs" and "entry \<in> set (tree_entries p cs)"
  then have "entry \<in> set cs" by (simp add: tree_entries_def)
  then have "size entry < Suc (size_list size cs)"
    by (induction cs) auto
  moreover from l obtain d where "n = Dir d cs" by (cases n) auto
  ultimately show ?thesis by simp
qed

text \<open>
  \<open>_add_to_tree(path, prefix)\<close>; the result is the text the call appends to \<open>tree_str\<close>,
  or the exception that leaves it. Only \<open>PermissionError\<close> is caught.
\<close>

function add_to_tree :: "path \<Rightarrow> node \<Rightarrow> str \<Rightarrow> error + str" where
  "add_to_tree p n prefix =
     (case iterdir p n of
        Inl (PermissionError denied) \<Rightarrow> Inr []
      | Inl e \<Rightarrow> Inl e
      | Inr cs \<Rightarrow>
          (let entries = tree_entries p cs in
           case collect (map (\<lambda>(i, entry).
                  let is_last = (int i = int (length entries) - 1);
                      connector = (if is_last then [9492, 9472, 9472, 32] else [9500, 9472, 9472, 32]);
                      line = prefix @ connector @ node_name entry
                               @ (if is_dir entry then lit ''/'' else []) @ lit ''\<newline>''
                  in if is_dir entry
                     then (let extension = (if is_last then lit ''    '' else [9474, 32, 32, 32])
                           in case add_to_tree (p @ [node_name entry]) entry (prefix @ extension) of
                                Inl e \<Rightarrow> Inl e
                              | Inr sub \<Rightarrow> Inr (line @ sub))
                     else Inr line) (enumerate 0 entries)) of
             Inl e \<Rightarrow> Inl e
           | Inr pieces \<Rightarrow> Inr (concat pieces)))"
  by pat_completeness auto
termination
proof (relation "measure (\<lambda>(p, n, prefix). size n)", goal_cases)
  case 1
  show ?case by simp
next
  case (2 p n prefix cs entries x i entry)
  then have "entry \<in> set (tree_entries p cs)"
    by (auto simp add: in_set_enumerate_eq)
  with 2 show ?case by (simp add: tree_entry_smaller)
qed

declare add_to_tree.simps [simp del]

definition generate_directory_tree :: "str \<Rightarrow> target \<Rightarrow> error + str" where
  "generate_directory_tree directory tgt =
     (case tgt of
        None \<Rightarrow> Inr (lit ''Invalid directory: '' @ directory)
      | Some n \<Rightarrow>
          if \<not> is_dir n then Inr (lit ''Invalid directory: '' @ directory)
          else (case add_to_tree (parts directory) n [] of
                  Inl e \<Rightarrow> Inl e
                | Inr added \<Rightarrow> Inr (path_name (parts directory) @ lit ''/\<newline>'' @ added)))"

section \<open>Tree renderer of \<open>src/src/app/tools.py\<close>\<close>

text \<open>
  The items are \<open>Path\<close> objects and \<open>sorted\<close> compares them part by part, so the key is the
  path itself. No exception is caught.
\<close>

definition tree_items_src :: "path \<Rightarrow> node list \<Rightarrow> node list" where
  "tree_items_src root cs =
     sort_key (\<lambda>item. root @ [node_name item])
       (filter (\<lambda>item. node_name item \<notin> set EXCLUSION_PATTERNS_src) cs)"

lemma tree_item_src_smaller:
  "iterdir root n = Inr cs \<Longrightarrow> item \<in> set (tree_items_src root cs) \<Longrightarrow> size item < size n"
proof -
  assume l: "iterdir root n = Inr cs" and "item \<in> set (tree_items_src root cs)"
  then have "item \<in> set cs" by (simp add: tree_items_src_def)
  then have "size item < Suc (size_list size cs)"
    by (induction cs) auto
  moreover from l obtain d where "n = Dir d cs" by (cases n) auto
  ultimately show ?thesis by simp
qed

function generate_directory_tree_src :: "path \<Rightarrow> node \<Rightarrow> str \<Rightarrow> error + str" where
  "generate_directory_tree_src root n indent =
     (case iterdir root n of
        Inl e \<Rightarrow> Inl e
      | Inr cs \<Rightarrow>
          (let items = tree_items_src root cs in
           case collect (map (\<lambda>(i, item).
                  let is_last = (int i = int (length items) - 1);
                      connector = (if is_last then [9492, 9472, 9472, 32] else [9500, 9472, 9472, 32]);
                      line = indent @ connector @ node_name item
                  in if is_dir item
                     then (let extension = (if is_last then lit ''    '' else [9474, 32, 32, 32])
                           in case generate_directory_tree_src (root @ [node_name item]) item (indent @ extension) of
                                Inl e \<Rightarrow> Inl e
                              | Inr sub \<Rightarrow> Inr [line, sub])
                     else Inr [line]) (enumerate 0 items)) of
             Inl e \<Rightarrow> Inl e
           | Inr tree \<Rightarrow> Inr (join (lit ''\<newline>'') (concat tree))))"
  by pat_completeness auto
termination
proof (relation "measure (\<lambda>(root, n, indent). size n)", goal_cases)
  case 1
  show ?case by simp
next
  case (2 root n indent cs items x i item)
  then have "item \<in> set (tree_items_src root cs)"
    by (auto simp add: in_set_enumerate_eq)
  with 2 show ?case by (simp add: tree_item_src_smaller)
qed

declare generate_directory_tree_src.simps [simp del]

section \<open>The agents\<close>

text \<open>
  The effects a run has besides its result, in order: a line printed, a pause, a request
  to the remote generation endpoint (the model name and the contents sent).
\<close>

datatype event = Print str | Sleep nat | RemoteCall str "str list"

text \<open>The number of requests to the remote endpoint among the events of a run.\<close>

fun is_remote_call :: "event \<Rightarrow> bool" where
  "is_remote_call (RemoteCall m contents) = True"
| "is_remote_call (Print s) = False"
| "is_remote_call (Sleep n) = False"

definition remote_calls :: "event list \<Rightarrow> nat" where
  "remote_calls evs = length (filter is_remote_call evs)"

text \<open>
  The world a run meets: what the project path denotes, the value of the environment
  variable \<open>GEMINI_API_KEY\<close>, how the remote endpoint answers a request (\<open>Inl\<close> the
  description of the exception it raises, \<open>Inr\<close> the text of the response), and the text
  \<open>str(e)\<close> of an operating-system error.
\<close>

record world =
  target :: target
  api_key :: "str option"
  remote :: "str \<Rightarrow> str list \<Rightarrow> str + str"
  strerror :: "error \<Rightarrow> str"

subsection \<open>\<open>READMEAgent\<close> of \<open>src/app/agents.py\<close>\<close>

definition construct_system_prompt :: str where
  \<open>construct_system_prompt = lit ''
You are an expert Technical Writer and Developer Advocate. Your goal is to analyze a codebase and generate a professional, comprehensive, and clear README.md file.

Your output must be strictly in VALID MARKDOWN format.

You will be provided with:
1. A directory tree structure of the project.
2. The contents of key files in the project.

Your task is to:
1. **Analyze the Project Structure**: Understand the organization of the code.
2. **Analyze File Contents**: Determine the purpose of the modules, classes, and functions.
3. **Identify Key Information**:
    - Project Name and Description (What does it do?)
    - Key Features (What are the main capabilities?)
    - Installation Instructions (How to set it up? Look for requirements.txt, setup.py, etc.)
    - Usage Examples (How to run it? Look for __main__.py, cli commands, etc.)
    - Technologies Used (Languages, libraries, frameworks).
4. **Generate the README.md**:
    - Use a clear and professional structure.
    - Include Badges if applicable (e.g., Python version, License).
    - Write a compelling introduction.
    - Provide step-by-step installation and usage guides.
    - If you see tests, mention how to run them.

**Strict Output Rules:**
- The output must be ONLY the markdown content of the README.md.
- Do not include conversational filler like "Here is the README".
- Ensure all code blocks are properly fenced.
''\<close>


text \<open>One section of the context, for one summary (line 134).\<close>

definition opt_str :: "str option \<Rightarrow> str" where
  "opt_str v = (case v of None \<Rightarrow> lit ''None'' | Some s \<Rightarrow> s)"

definition file_section :: "FileSummary \<Rightarrow> str" where
  "file_section s =
     lit ''\<newline>## File: '' @ path s @ lit ''\<newline>```''
     @ (if take 1 (extension s) = lit ''.'' then drop 1 (extension s) else lit ''text'')
     @ lit ''\<newline>'' @ opt_str (content s) @ lit ''\<newline>```\<newline>''"

definition build_context :: "str \<Rightarrow> FileSummary list \<Rightarrow> str" where
  "build_context tree summaries =
     foldl (\<lambda>context_str s. context_str @ file_section s)
       (lit ''# Project Directory Tree\<newline>```\<newline>'' @ tree @ lit ''\<newline>```\<newline>\<newline># File Contents\<newline>'')
       summaries"

definition dry_run_preview :: "FileSummary list \<Rightarrow> str \<Rightarrow> str" where
  "dry_run_preview summaries context_str =
     lit ''[DRY RUN MODE]\<newline>            \<newline>Analysis complete.\<newline>- Files found: ''
     @ str_nat (length summaries)
     @ lit ''\<newline>- Total context size (approx): '' @ str_nat (length context_str)
     @ lit '' characters\<newline>\<newline>Preview of Context Sent to LLM:\<newline>''
     @ slice_to context_str 1000 @ lit ''...\<newline>''"

text \<open>
  \<open>READMEAgent.generate\<close>: the events of the call and its result, \<open>Inl\<close> an exception
  that leaves it.
\<close>

definition generate :: "world \<Rightarrow> READMEAgent \<Rightarrow> bool \<Rightarrow> event list \<times> (error + str)" where
  "generate w agent dry =
     (case generate_directory_tree (project_path agent) (target w) of
        Inl e \<Rightarrow> ([], Inl e)
      | Inr tree \<Rightarrow>
          (let summaries = get_file_summaries agent (target w) in
           if summaries = [] then
             ([], Inr (lit ''Error: No valid files found in the directory. Cannot generate README.''))
           else
             (let context_str = build_context tree summaries in
              if dry then ([], Inr (dry_run_preview summaries context_str))
              else
                (case model agent of
                   None \<Rightarrow>
                     ([], Inr (lit ''ERROR: GEMINI_API_KEY not set. \<newline>\<newline>Generated Context (Preview):\<newline>''
                               @ slice_to context_str 500 @ lit ''...''))
                 | Some m \<Rightarrow>
                     (let contents = [construct_system_prompt,
                                      lit ''Here is the codebase information:\<newline>\<newline>'' @ context_str]
                      in case remote w m contents of
                           Inr text \<Rightarrow> ([RemoteCall m contents], Inr text)
                         | Inl e \<Rightarrow> ([RemoteCall m contents], Inr (lit ''Error generating README: '' @ e)))))))"

subsection \<open>\<open>READMEAgent\<close> of \<open>src/src/app/agents.py\<close>\<close>

record READMEAgent_src =
  client :: str
  project_path_src :: str
  max_chars_per_file_src :: int

text \<open>\<open>__init__\<close> raises \<open>ValueError\<close> when the key is missing or empty.\<close>

definition READMEAgent_src_init :: "str option \<Rightarrow> str \<Rightarrow> int \<Rightarrow> error + READMEAgent_src" where
  "READMEAgent_src_init key dir_arg max_arg =
     (if \<not> truthy key then
        Inl (ValueError (lit ''GEMINI_API_KEY environment variable not set. Please set it in your terminal.''))
      else Inr \<lparr>client = opt_str key, project_path_src = dir_arg, max_chars_per_file_src = max_arg\<rparr>)"

text \<open>
  \<open>generate_directory_tree(self.project_path)\<close> at the root: \<open>iterdir\<close> on a path that does
  not exist raises \<open>FileNotFoundError\<close>.
\<close>

definition tree_src :: "str \<Rightarrow> target \<Rightarrow> error + str" where
  "tree_src root_path tgt =
     (case tgt of
        None \<Rightarrow> Inl (FileNotFoundError (parts root_path))
      | Some n \<Rightarrow> generate_directory_tree_src (parts root_path) n [])"

definition get_context_src :: "world \<Rightarrow> READMEAgent_src \<Rightarrow> error + str" where
  "get_context_src w agent =
     (case tree_src (project_path_src agent) (target w) of
        Inl e \<Rightarrow> Inl e
      | Inr tree \<Rightarrow>
          (let summaries = get_file_summaries_src (project_path_src agent) (max_chars_per_file_src agent) (target w);
               context_parts =
                 [lit ''# Project Directory Tree'', lit ''```'', tree, lit ''```'', lit ''\<newline># File Contents'']
                 @ concat (map (\<lambda>s. [lit ''## File: '' @ relative_path s,
                                        lit ''```\<newline>'' @ content_src s @ lit ''\<newline>```'']) summaries)
           in Inr (join (lit ''\<newline>'') context_parts)))"

definition generate_src :: "world \<Rightarrow> READMEAgent_src \<Rightarrow> bool \<Rightarrow> event list \<times> (error + str)" where
  "generate_src w agent dry =
     (case get_context_src w agent of
        Inl e \<Rightarrow> ([], Inl e)
      | Inr context \<Rightarrow>
          if dry then
            ([], Inr (lit ''--- DRY RUN COMPLETE ---\<newline>Review the gathered context above. No LLM was called.''))
          else
            (let prompt = lit ''Act as a professional software engineer. Based on the following ''
                   @ lit ''project tree and file contents, generate a high-quality, ''
                   @ lit ''comprehensive README.md in Markdown format. Include installation, ''
                   @ lit ''usage, and a tech stack section.\<newline>\<newline>''
                   @ context;
                 before = [Print (lit ''Respecting API Quota: Waiting 12s cooldown...''), Sleep 12,
                           RemoteCall MODEL_NAME_src [prompt]]
             in case remote w MODEL_NAME_src [prompt] of
                  Inr text \<Rightarrow> (before, Inr text)
                | Inl e \<Rightarrow> (before, Inr (lit ''An error occurred while generating the README: '' @ e))))"

section \<open>Command-line driver (\<open>src/app/__main__.py\<close>)\<close>

record args =
  directory_path :: str
  dry_run :: bool
  max_chars :: int

text \<open>\<open>str(e)\<close>: the message of a \<open>ValueError\<close>, the system's text otherwise.\<close>

definition str_error :: "world \<Rightarrow> error \<Rightarrow> str" where
  "str_error w e = (case e of ValueError msg \<Rightarrow> msg | _ \<Rightarrow> strerror w e)"

text \<open>
  \<open>main\<close> with the \<open>READMEAgent\<close> that \<open>from app.agents import READMEAgent\<close> resolves to,
  given by its constructor and its \<open>generate\<close>. The result is the events of the process
  and its exit status.
\<close>

definition main ::
  "(str \<Rightarrow> int \<Rightarrow> error + 'agent) \<Rightarrow> ('agent \<Rightarrow> bool \<Rightarrow> event list \<times> (error + str))
     \<Rightarrow> world \<Rightarrow> args \<Rightarrow> event list \<times> nat" where
  "main agent_init agent_generate w a =
     (case target w of
        None \<Rightarrow> ([Print (lit ''Error: Directory '' @ [39] @ directory_path a @ [39] @ lit '' does not exist.'')], 1)
      | Some n \<Rightarrow>
          if \<not> is_dir n then
            ([Print (lit ''Error: Path '' @ [39] @ directory_path a @ [39] @ lit '' is not a directory.'')], 1)
          else
            (case agent_init (directory_path a) (max_chars a) of
               Inl e \<Rightarrow> ([Print (lit ''An unexpected error occurred: '' @ str_error w e)], 1)
             | Inr agent \<Rightarrow>
                 (case agent_generate agent (dry_run a) of
                    (evs, Inl e) \<Rightarrow> (evs @ [Print (lit ''An unexpected error occurred: '' @ str_error w e)], 1)
                  | (evs, Inr result) \<Rightarrow> (evs @ [Print result], 0))))"

text \<open>The driver with the agent of \<open>src/app/agents.py\<close>, as \<open>src/app/__main__.py\<close> imports it.\<close>

definition main_app :: "world \<Rightarrow> args \<Rightarrow> event list \<times> nat" where
  "main_app w a = main (\<lambda>d m. Inr (READMEAgent_init (api_key w) d m)) (generate w) w a"

text \<open>
  The same driver with the agent of \<open>src/src/app/agents.py\<close>: what \<open>main\<close> does when
  \<open>from app.agents import READMEAgent\<close> resolves to that module. \<open>src/src/__main__.py\<close>
  puts its own directory on the module path and calls the \<open>main\<close> of \<open>app.__main__\<close>;
  \<open>src/app/__main__.py\<close> is the only such module among the sources.
\<close>

definition main_src :: "world \<Rightarrow> args \<Rightarrow> event list \<times> nat" where
  "main_src w a = main (READMEAgent_src_init (api_key w)) (generate_src w) w a"

section \<open>Example inputs\<close>

text \<open>
  A project with a source file of twenty characters, an image that is not valid UTF-8, a
  dependency directory and a directory that cannot be listed; and the worlds in which the
  examples below run.
\<close>

definition a_py :: node where
  "a_py = File (lit ''a.py'') (Body (Text (lit ''0123456789ABCDEFGHIJ'')) (Text (lit ''0123456789ABCDEFGHIJ'')))"

definition b_png :: node where
  "b_png = File (lit ''b.png'') (Body UnicodeDecodeError (Text [137, 80, 78, 71]))"

definition x_js :: node where
  "x_js = File (lit ''x.js'') (Body (Text (lit ''x'')) (Text (lit ''x'')))"

definition example_project :: node where
  "example_project = Dir (lit ''proj'') [a_py, b_png, Dir (lit ''node_modules'') [x_js]]"

definition locked_project :: node where
  "locked_project = Dir (lit ''proj'') [a_py, NoAccess (lit ''locked'')]"

definition example_world :: "node option \<Rightarrow> str option \<Rightarrow> world" where
  "example_world tgt key =
     \<lparr>target = tgt, api_key = key, remote = (\<lambda>m contents. Inl (lit ''429 quota exceeded'')),
      strerror = (\<lambda>e. lit ''[Errno 13] Permission denied'')\<rparr>"

definition e_txt :: node where
  "e_txt = File (lit ''e.txt'') (Body (Text []) (Text []))"

definition cafe_txt :: node where
  "cafe_txt = File (lit ''cafe.txt'') (Body UnicodeDecodeError (Text [99, 97, 102, 233]))"

definition gone_txt :: node where
  "gone_txt = File (lit ''gone.txt'') (Body UnicodeDecodeError OSError)"

definition B_txt :: node where
  "B_txt = File (lit ''B.txt'') (Body (Text (lit ''notes'')) (Text (lit ''notes'')))"

definition lib_dir :: node where
  "lib_dir = Dir (lit ''lib'') [x_js]"

definition mixed_project :: node where
  "mixed_project = Dir (lit ''proj'') [a_py, lib_dir, B_txt]"

definition two_files :: node where
  "two_files = Dir (lit ''proj'') [e_txt, a_py]"

definition image_only :: node where
  "image_only = Dir (lit ''proj'') [b_png]"


section \<open>Shared lemmas\<close>

lemma foldl_append_concat:
  "foldl (\<lambda>acc x. acc @ f x) a xs = a @ concat (map f xs)"
  by (induction xs arbitrary: a) auto

lemma get_file_summaries_concat:
  "get_file_summaries agent tgt = concat (map (summarise agent) (list_files (project_path agent) tgt))"
  by (simp add: get_file_summaries_def foldl_append_concat)

lemma get_file_summaries_src_concat:
  "get_file_summaries_src root_path limit (Some n)
     = concat (map (summarise_src (parts root_path) limit) (rglob (parts root_path) n))"
  by (simp add: get_file_summaries_src_def foldl_append_concat)

lemma collect_all_Inr:
  "(\<And>r. r \<in> set rs \<Longrightarrow> \<exists>x. r = Inr x) \<Longrightarrow> \<exists>xs. collect rs = Inr xs"
proof (induction rs)
  case Nil
  show ?case by simp
next
  case (Cons r rs)
  from Cons.prems obtain x where r: "r = Inr x" by auto
  from Cons.IH Cons.prems obtain xs where "collect rs = Inr xs" by auto
  with r show ?case by simp
qed

lemma is_dir_iterdir:
  "is_dir n \<Longrightarrow> (\<exists>cs. iterdir p n = Inr cs) \<or> iterdir p n = Inl (PermissionError p)"
  by (cases n) auto

lemma case_collect_total:
  assumes "\<And>x. x \<in> set xs \<Longrightarrow> \<exists>y. f x = Inr y"
  shows "\<exists>added. (case collect (map f xs) of Inl e \<Rightarrow> Inl e | Inr pieces \<Rightarrow> Inr (g pieces)) = Inr added"
proof -
  from assms have "\<And>r. r \<in> set (map f xs) \<Longrightarrow> \<exists>y. r = Inr y" by auto
  then obtain ys where "collect (map f xs) = Inr ys"
    using collect_all_Inr by blast
  then show ?thesis by simp
qed

lemma add_to_tree_total:
  "is_dir n \<Longrightarrow> \<exists>added. add_to_tree p n prefix = Inr added"
proof (induction p n prefix rule: add_to_tree.induct)
  case (1 p n prefix)
  from is_dir_iterdir [OF "1.prems", of p] show ?case
  proof
    assume "iterdir p n = Inl (PermissionError p)"
    then show ?thesis by (simp add: add_to_tree.simps)
  next
    assume "\<exists>cs. iterdir p n = Inr cs"
    then obtain cs where cs: "iterdir p n = Inr cs" ..
    have rec: "\<exists>added. add_to_tree (p @ [node_name entry]) entry
                (prefix @ (if int i = int (length (tree_entries p cs)) - 1 then lit ''    '' else [9474, 32, 32, 32])) = Inr added"
      if "(i, entry) \<in> set (enumerate 0 (tree_entries p cs))" and "is_dir entry" for i entry
      using "1.IH" [OF cs refl that(1) refl refl refl refl that(2) refl that(2)] .
    have "\<exists>added. (case collect (map (\<lambda>(i, entry).
                  let is_last = (int i = int (length (tree_entries p cs)) - 1);
                      connector = (if is_last then [9492, 9472, 9472, 32] else [9500, 9472, 9472, 32]);
                      line = prefix @ connector @ node_name entry
                               @ (if is_dir entry then lit ''/'' else []) @ lit ''\<newline>''
                  in if is_dir entry
                     then (let extension = (if is_last then lit ''    '' else [9474, 32, 32, 32])
                           in case add_to_tree (p @ [node_name entry]) entry (prefix @ extension) of
                                Inl e \<Rightarrow> Inl e
                              | Inr sub \<Rightarrow> Inr (line @ sub))
                     else Inr line) (enumerate 0 (tree_entries p cs))) of
             Inl e \<Rightarrow> Inl e
           | Inr pieces \<Rightarrow> Inr (concat pieces)) = Inr added"
    proof (rule case_collect_total)
      fix x assume x: "x \<in> set (enumerate 0 (tree_entries p cs))"
      obtain i entry where ie: "x = (i, entry)" by (cases x)
      show "\<exists>y. (case x of (i, entry) \<Rightarrow>
                  let is_last = (int i = int (length (tree_entries p cs)) - 1);
                      connector = (if is_last then [9492, 9472, 9472, 32] else [9500, 9472, 9472, 32]);
                      line = prefix @ connector @ node_name entry
                               @ (if is_dir entry then lit ''/'' else []) @ lit ''\<newline>''
                  in if is_dir entry
                     then (let extension = (if is_last then lit ''    '' else [9474, 32, 32, 32])
                           in case add_to_tree (p @ [node_name entry]) entry (prefix @ extension) of
                                Inl e \<Rightarrow> Inl e
                              | Inr sub \<Rightarrow> Inr (line @ sub))
                     else Inr line) = Inr y"
      proof (cases "is_dir entry")
        case False
        with ie show ?thesis by (simp add: Let_def)
      next
        case True
        from rec [OF x [unfolded ie] True] obtain added where
          "add_to_tree (p @ [node_name entry]) entry
             (prefix @ (if int i = int (length (tree_entries p cs)) - 1 then lit ''    '' else [9474, 32, 32, 32])) = Inr added" ..
        with ie True show ?thesis by (simp add: Let_def)
      qed
    qed
    with cs show ?thesis
      by (simp add: add_to_tree.simps [of p n prefix] Let_def)
  qed
qed

lemma generate_directory_tree_total:
  "\<exists>tree. generate_directory_tree directory tgt = Inr tree"
proof (cases tgt)
  case None
  then show ?thesis by (simp add: generate_directory_tree_def)
next
  case (Some n)
  show ?thesis
  proof (cases "is_dir n")
    case False
    with Some show ?thesis by (simp add: generate_directory_tree_def)
  next
    case True
    from add_to_tree_total [OF True] obtain added where "add_to_tree (parts directory) n [] = Inr added"
      by blast
    with Some True show ?thesis by (simp add: generate_directory_tree_def)
  qed
qed

text \<open>The renderers, by the kind of entry they are called on.\<close>

lemma add_to_tree_Dir:
  "add_to_tree p (Dir d cs) prefix =
     (let entries = tree_entries p cs in
      case collect (map (\<lambda>(i, entry).
             let is_last = (int i = int (length entries) - 1);
                 connector = (if is_last then [9492, 9472, 9472, 32] else [9500, 9472, 9472, 32]);
                 line = prefix @ connector @ node_name entry
                          @ (if is_dir entry then lit ''/'' else []) @ lit ''\<newline>''
             in if is_dir entry
                then (let extension = (if is_last then lit ''    '' else [9474, 32, 32, 32])
                      in case add_to_tree (p @ [node_name entry]) entry (prefix @ extension) of
                           Inl e \<Rightarrow> Inl e
                         | Inr sub \<Rightarrow> Inr (line @ sub))
                else Inr line) (enumerate 0 entries)) of
        Inl e \<Rightarrow> Inl e
      | Inr pieces \<Rightarrow> Inr (concat pieces))"
  by (simp add: add_to_tree.simps [of p "Dir d cs"])

lemma add_to_tree_NoAccess: "add_to_tree p (NoAccess d) prefix = Inr []"
  by (simp add: add_to_tree.simps [of p "NoAccess d"])

lemma add_to_tree_File: "add_to_tree p (File f b) prefix = Inl (NotADirectoryError p)"
  by (simp add: add_to_tree.simps [of p "File f b"])

lemma generate_directory_tree_src_Dir:
  "generate_directory_tree_src root (Dir d cs) indent =
     (let items = tree_items_src root cs in
      case collect (map (\<lambda>(i, item).
             let is_last = (int i = int (length items) - 1);
                 connector = (if is_last then [9492, 9472, 9472, 32] else [9500, 9472, 9472, 32]);
                 line = indent @ connector @ node_name item
             in if is_dir item
                then (let extension = (if is_last then lit ''    '' else [9474, 32, 32, 32])
                      in case generate_directory_tree_src (root @ [node_name item]) item (indent @ extension) of
                           Inl e \<Rightarrow> Inl e
                         | Inr sub \<Rightarrow> Inr [line, sub])
                else Inr [line]) (enumerate 0 items)) of
        Inl e \<Rightarrow> Inl e
      | Inr tree \<Rightarrow> Inr (join (lit ''\<newline>'') (concat tree)))"
  by (simp add: generate_directory_tree_src.simps [of root "Dir d cs"])

lemma generate_directory_tree_src_NoAccess:
  "generate_directory_tree_src root (NoAccess d) indent = Inl (PermissionError root)"
  by (simp add: generate_directory_tree_src.simps [of root "NoAccess d"])

lemma generate_directory_tree_src_File:
  "generate_directory_tree_src root (File f b) indent = Inl (NotADirectoryError root)"
  by (simp add: generate_directory_tree_src.simps [of root "File f b"])


section \<open>The scanners filter by extension and by excluded directory (C1)\<close>

lemma excluded_name_unsupported:
  "x \<in> EXCLUSION_PATTERNS \<Longrightarrow> suffix_of_name x \<notin> SUPPORTED_EXTENSIONS"
  by (auto simp add: EXCLUSION_PATTERNS_def SUPPORTED_EXTENSIONS_def lit_def suffix_of_name_def)

lemma empty_suffix_unsupported: "[] \<notin> SUPPORTED_EXTENSIONS"
  by (simp add: SUPPORTED_EXTENSIONS_def lit_def)

lemma empty_suffix_unsupported_src: "[] \<notin> set SUPPORTED_EXTENSIONS_src"
  by (simp add: SUPPORTED_EXTENSIONS_src_def lit_def)

lemma suffix_of_empty_name: "suffix_of_name [] = []"
  by (simp add: suffix_of_name_def)

lemma path_name_append:
  "rel \<noteq> [] \<Longrightarrow> path_name (root @ rel) = last rel \<or> path_name (root @ rel) = []"
  by (cases root) (auto simp add: path_name_def Let_def last_tl)

lemma path_suffix_append:
  "rel \<noteq> [] \<Longrightarrow> path_suffix (root @ rel) \<noteq> [] \<Longrightarrow> path_suffix (root @ rel) = suffix_of_name (last rel)"
  using path_name_append [of rel root] by (auto simp add: path_suffix_def suffix_of_empty_name)

lemma walk_files_sound:
  "(p, n) \<in> set (walk_files root nd) \<Longrightarrow>
     path_suffix p \<in> SUPPORTED_EXTENSIONS \<and> is_file n \<and>
     (\<exists>rel. rel \<noteq> [] \<and> p = root @ rel \<and> (\<forall>x \<in> set rel. x \<notin> EXCLUSION_PATTERNS))"
proof (induction root nd arbitrary: p n rule: walk_files.induct)
  case (1 root d cs)
  from "1.prems" consider
    (here) c where "c \<in> set cs" "\<not> is_dir c" "path_suffix (root @ [node_name c]) \<in> SUPPORTED_EXTENSIONS"
        "p = root @ [node_name c]" "n = c"
  | (below) c where "c \<in> set cs" "is_dir c" "node_name c \<notin> EXCLUSION_PATTERNS"
        "(p, n) \<in> set (walk_files (root @ [node_name c]) c)"
    by (auto split: if_splits)
  then show ?case
  proof cases
    case here
    have "path_suffix (root @ [node_name c]) \<noteq> []"
      using here(3) empty_suffix_unsupported by auto
    then have "suffix_of_name (node_name c) \<in> SUPPORTED_EXTENSIONS"
      using path_suffix_append [of "[node_name c]" root] here(3) by simp
    then have "node_name c \<notin> EXCLUSION_PATTERNS"
      using excluded_name_unsupported by blast
    moreover have "is_file c" using here(2) by (cases c) auto
    ultimately show ?thesis using here by auto
  next
    case below
    from "1.IH" [OF below(1) _ below(4)] below(2,3)
    obtain rel where r: "path_suffix p \<in> SUPPORTED_EXTENSIONS" "is_file n" "rel \<noteq> []"
        "p = (root @ [node_name c]) @ rel" "\<forall>x \<in> set rel. x \<notin> EXCLUSION_PATTERNS"
      by auto
    show ?thesis
      using r below(3) by (intro conjI exI [of _ "node_name c # rel"]) auto
  qed
qed auto

lemma rglob_prefix:
  "(p, n) \<in> set (rglob root nd) \<Longrightarrow> \<exists>rel. rel \<noteq> [] \<and> p = root @ rel"
proof (induction root nd arbitrary: p n rule: rglob.induct)
  case (1 root d cs)
  from "1.prems" consider
    (here) c where "c \<in> set cs" "p = root @ [node_name c]"
  | (below) c where "c \<in> set cs" "(p, n) \<in> set (rglob (root @ [node_name c]) c)"
    by auto
  then show ?case
  proof cases
    case here
    then show ?thesis by auto
  next
    case below
    from "1.IH" [OF below] obtain rel where "rel \<noteq> []" "p = (root @ [node_name c]) @ rel"
      by auto
    then have "node_name c # rel \<noteq> [] \<and> p = root @ (node_name c # rel)" by simp
    then show ?thesis by blast
  qed
qed auto

lemma summarise_src_cases:
  assumes "s \<in> set (summarise_src root limit (file_path, n))"
  obtains cont rel_path where
    "\<not> is_dir n" "\<forall>x \<in> set file_path. x \<notin> set EXCLUSION_PATTERNS_src"
    "path_suffix file_path \<in> set SUPPORTED_EXTENSIONS_src"
    "read_text n UTF8 = Text cont" "relative_to file_path root = Some rel_path"
    "s = \<lparr>relative_path = path_str rel_path, content_src = truncate_content_src limit cont\<rparr>"
proof (cases "is_dir n \<or> (\<exists>part \<in> set file_path. part \<in> set EXCLUSION_PATTERNS_src)")
  case True
  with assms show ?thesis by (simp add: summarise_src_def)
next
  case skip: False
  show ?thesis
  proof (cases "path_suffix file_path \<in> set SUPPORTED_EXTENSIONS_src")
    case False
    with skip assms show ?thesis by (simp add: summarise_src_def)
  next
    case sup: True
    show ?thesis
    proof (cases "read_text n UTF8")
      case (Text cont)
      show ?thesis
      proof (cases "relative_to file_path root")
        case None
        with skip sup Text assms show ?thesis by (simp add: summarise_src_def)
      next
        case (Some rel_path)
        with skip sup Text assms
        have "s = \<lparr>relative_path = path_str rel_path, content_src = truncate_content_src limit cont\<rparr>"
          by (simp add: summarise_src_def)
        with skip sup Text Some that show ?thesis by blast
      qed
    next
      case UnicodeDecodeError
      with skip sup assms show ?thesis by (simp add: summarise_src_def)
    next
      case OSError
      with skip sup assms show ?thesis by (simp add: summarise_src_def)
    qed
  qed
qed

lemma summarise_src_sound:
  assumes "s \<in> set (summarise_src root limit (root @ rel, n))" and "rel \<noteq> []"
  shows "relative_path s = path_str rel \<and> suffix_of_name (last rel) \<in> set SUPPORTED_EXTENSIONS_src \<and>
         (\<forall>x \<in> set (root @ rel). x \<notin> set EXCLUSION_PATTERNS_src)"
proof -
  from assms(1) obtain cont rel_path where
    ex: "\<forall>x \<in> set (root @ rel). x \<notin> set EXCLUSION_PATTERNS_src"
    and sup: "path_suffix (root @ rel) \<in> set SUPPORTED_EXTENSIONS_src"
    and rel: "relative_to (root @ rel) root = Some rel_path"
    and s: "s = \<lparr>relative_path = path_str rel_path, content_src = truncate_content_src limit cont\<rparr>"
    by (rule summarise_src_cases)
  from rel s have rp: "relative_path s = path_str rel"
    by (simp add: relative_to_def)
  from sup have "path_suffix (root @ rel) \<noteq> []"
    using empty_suffix_unsupported_src by auto
  with sup assms(2) have "suffix_of_name (last rel) \<in> set SUPPORTED_EXTENSIONS_src"
    using path_suffix_append [of rel root] by simp
  with ex rp show ?thesis by simp
qed


lemma split_on_no_sep: "sep \<notin> set x \<Longrightarrow> split_on sep x = [x]"
  by (induction x) auto

lemma split_on_append_sep:
  "sep \<notin> set x \<Longrightarrow> split_on sep (x @ sep # rest) = x # split_on sep rest"
  by (induction x) auto

lemma split_on_join:
  "rel \<noteq> [] \<Longrightarrow> \<forall>x \<in> set rel. 47 \<notin> set x \<Longrightarrow> split_on 47 (join [47] rel) = rel"
proof (induction "[47 :: nat]" rel rule: join.induct)
  case 1
  then show ?case by simp
next
  case (2 x)
  then show ?case by (simp add: split_on_no_sep)
next
  case (3 x y ys)
  then show ?case by (simp add: split_on_append_sep)
qed

lemma join_first:
  "x \<noteq> [] \<Longrightarrow> take 1 (join sep (x # xs)) = take 1 x"
  by (cases xs; cases x) auto

lemma parts_path_str:
  assumes "rel \<noteq> []" and "\<forall>x \<in> set rel. valid_name x"
  shows "parts (path_str rel) = rel"
proof -
  from assms have h: "hd rel \<noteq> []" "47 \<notin> set (hd rel)"
    by (cases rel; simp add: valid_name_def)+
  then have "take 1 (hd rel) \<noteq> lit ''/''"
    by (cases "hd rel") (auto simp add: lit_def)
  with assms(1) have nr: "\<not> has_root rel"
    by (cases rel) (auto simp add: has_root_def)
  with assms(1) have ps: "path_str rel = join (lit ''/'') rel"
    by (simp add: path_str_def)
  from join_first [OF h(1), of "lit ''/''" "tl rel"] assms(1) \<open>take 1 (hd rel) \<noteq> lit ''/''\<close>
  have "take 1 (join (lit ''/'') rel) \<noteq> lit ''/''" by simp
  then have sr: "splitroot (join (lit ''/'') rel) = ([], join (lit ''/'') rel)"
    by (simp add: splitroot_def)
  have "lit ''/'' = [47]" by (simp add: lit_def)
  with assms have "split_on 47 (join (lit ''/'') rel) = rel"
    using split_on_join [of rel] by (auto simp add: valid_name_def)
  moreover from assms(2) have "filter (\<lambda>x. x \<noteq> [] \<and> x \<noteq> lit ''.'') rel = rel"
    by (auto simp add: valid_name_def intro: filter_True)
  ultimately show ?thesis
    using ps sr by (simp add: parts_def)
qed


text \<open>
  C1, as the code has it. Every path \<open>list_files\<close> (\<open>src/app\<close>) returns has a supported
  extension, and no component of it below the scanned root is in the exclusion set; the
  components of the root itself are not examined. Every summary \<open>get_file_summaries\<close>
  (\<open>src/src\<close>) returns was made for a scanned path \<open>root/rel\<close>: the relative path it
  returns is \<open>rel\<close> as a string (and \<open>rel\<close> are its components, when the names are those of
  directory entries), the extension of its last component is supported, and no component
  of \<open>rel\<close> or of the root is in the exclusion list.
\<close>

theorem scan_filters:
  "(\<forall>(p, n) \<in> set (list_files directory tgt).
      path_suffix p \<in> SUPPORTED_EXTENSIONS \<and>
      (\<exists>rel. p = parts directory @ rel \<and> (\<forall>x \<in> set rel. x \<notin> EXCLUSION_PATTERNS)))
   \<and> (\<forall>s \<in> set (get_file_summaries_src root_path limit tgt).
        \<exists>nd rel n. tgt = Some nd \<and>
          (parts root_path @ rel, n) \<in> set (rglob (parts root_path) nd) \<and>
          s \<in> set (summarise_src (parts root_path) limit (parts root_path @ rel, n)) \<and>
          rel \<noteq> [] \<and> relative_path s = path_str rel \<and>
          ((\<forall>x \<in> set rel. valid_name x) \<longrightarrow> parts (relative_path s) = rel) \<and>
          suffix_of_name (last rel) \<in> set SUPPORTED_EXTENSIONS_src \<and>
          (\<forall>x \<in> set (parts root_path @ rel). x \<notin> set EXCLUSION_PATTERNS_src))"
proof (intro conjI ballI)
  fix x assume "x \<in> set (list_files directory tgt)"
  then have "\<exists>nd. x \<in> set (walk_files (parts directory) nd)"
    by (cases tgt) (auto simp add: list_files_def split: if_splits)
  then obtain p n nd where x: "x = (p, n)" and "(p, n) \<in> set (walk_files (parts directory) nd)"
    by (cases x) auto
  from walk_files_sound [OF this(2)] x
  show "case x of (p, n) \<Rightarrow> path_suffix p \<in> SUPPORTED_EXTENSIONS \<and>
      (\<exists>rel. p = parts directory @ rel \<and> (\<forall>x \<in> set rel. x \<notin> EXCLUSION_PATTERNS))"
    by auto
next
  fix s assume "s \<in> set (get_file_summaries_src root_path limit tgt)"
  then obtain nd fp where nd: "tgt = Some nd" and fp: "fp \<in> set (rglob (parts root_path) nd)"
      and s: "s \<in> set (summarise_src (parts root_path) limit fp)"
    by (cases tgt) (auto simp add: get_file_summaries_src_def foldl_append_concat)
  obtain p n where pn: "fp = (p, n)" by (cases fp)
  from rglob_prefix fp pn obtain rel where rel: "rel \<noteq> []" "p = parts root_path @ rel"
    by blast
  from summarise_src_sound [of s "parts root_path" limit rel n] s pn rel
  have sound: "relative_path s = path_str rel"
    "suffix_of_name (last rel) \<in> set SUPPORTED_EXTENSIONS_src"
    "\<forall>x \<in> set (parts root_path @ rel). x \<notin> set EXCLUSION_PATTERNS_src"
    by simp_all
  from sound(1) rel(1) have "(\<forall>x \<in> set rel. valid_name x) \<longrightarrow> parts (relative_path s) = rel"
    by (simp add: parts_path_str)
  with nd fp s pn rel sound
  show "\<exists>nd rel n. tgt = Some nd \<and>
          (parts root_path @ rel, n) \<in> set (rglob (parts root_path) nd) \<and>
          s \<in> set (summarise_src (parts root_path) limit (parts root_path @ rel, n)) \<and>
          rel \<noteq> [] \<and> relative_path s = path_str rel \<and>
          ((\<forall>x \<in> set rel. valid_name x) \<longrightarrow> parts (relative_path s) = rel) \<and>
          suffix_of_name (last rel) \<in> set SUPPORTED_EXTENSIONS_src \<and>
          (\<forall>x \<in> set (parts root_path @ rel). x \<notin> set EXCLUSION_PATTERNS_src)"
    by blast
qed

theorem scan_filters_witness:
  "([lit ''proj'', lit ''a.py''], a_py) \<in> set (list_files (lit ''proj'') (Some example_project))
   \<and> path_suffix [lit ''proj'', lit ''a.py''] \<in> SUPPORTED_EXTENSIONS
   \<and> (\<exists>rel. [lit ''proj'', lit ''a.py''] = parts (lit ''proj'') @ rel \<and> (\<forall>x \<in> set rel. x \<notin> EXCLUSION_PATTERNS))
   \<and> get_file_summaries_src (lit ''proj'') 5000 (Some example_project)
       = [\<lparr>relative_path = lit ''a.py'', content_src = lit ''0123456789ABCDEFGHIJ''\<rparr>]
   \<and> parts (lit ''a.py'') = [lit ''a.py'']
   \<and> suffix_of_name (lit ''a.py'') \<in> set SUPPORTED_EXTENSIONS_src
   \<and> lit ''a.py'' \<notin> set EXCLUSION_PATTERNS_src \<and> lit ''proj'' \<notin> set EXCLUSION_PATTERNS_src"
proof -
  let ?s = "\<lparr>relative_path = lit ''a.py'', content_src = lit ''0123456789ABCDEFGHIJ''\<rparr>"
  have m1: "([lit ''proj'', lit ''a.py''], a_py) \<in> set (list_files (lit ''proj'') (Some example_project))"
    by (simp add: list_files_def example_project_def a_py_def b_png_def x_js_def parts_def
        splitroot_def path_suffix_def path_name_def has_root_def suffix_of_name_def
        SUPPORTED_EXTENSIONS_def EXCLUSION_PATTERNS_def lit_def)
  have m2: "get_file_summaries_src (lit ''proj'') 5000 (Some example_project) = [?s]"
    by (simp add: get_file_summaries_src_def summarise_src_def truncate_content_src_def relative_to_def
        path_str_def example_project_def a_py_def b_png_def x_js_def parts_def
        splitroot_def path_suffix_def path_name_def has_root_def suffix_of_name_def
        SUPPORTED_EXTENSIONS_src_def EXCLUSION_PATTERNS_src_def lit_def)
  have root: "parts (lit ''proj'') = [lit ''proj'']"
    by (simp add: parts_def splitroot_def lit_def)
  from scan_filters [of "lit ''proj''" "Some example_project" "lit ''proj''" 5000] m1
  have f1: "path_suffix [lit ''proj'', lit ''a.py''] \<in> SUPPORTED_EXTENSIONS \<and>
      (\<exists>rel. [lit ''proj'', lit ''a.py''] = parts (lit ''proj'') @ rel \<and> (\<forall>x \<in> set rel. x \<notin> EXCLUSION_PATTERNS))"
    by fastforce
  from scan_filters [of "lit ''proj''" "Some example_project" "lit ''proj''" 5000] m2
  obtain rel n where r: "(parts (lit ''proj'') @ rel, n) \<in> set (rglob (parts (lit ''proj'')) example_project)"
    and ps: "lit ''a.py'' = path_str rel"
    and pp: "(\<forall>x \<in> set rel. valid_name x) \<longrightarrow> parts (lit ''a.py'') = rel"
    and su: "suffix_of_name (last rel) \<in> set SUPPORTED_EXTENSIONS_src"
    and ex: "\<forall>x \<in> set (parts (lit ''proj'') @ rel). x \<notin> set EXCLUSION_PATTERNS_src"
    by fastforce
  from r have "rel \<in> {[lit ''a.py''], [lit ''b.png''], [lit ''node_modules''], [lit ''node_modules'', lit ''x.js'']}"
    by (auto simp add: root example_project_def a_py_def b_png_def x_js_def)
  with ps have rel: "rel = [lit ''a.py'']"
    by (auto simp add: path_str_def has_root_def lit_def)
  have "valid_name (lit ''a.py'')" by (simp add: valid_name_def lit_def)
  with pp rel have f2: "parts (lit ''a.py'') = [lit ''a.py'']" by simp
  from su ex rel root have f3: "suffix_of_name (lit ''a.py'') \<in> set SUPPORTED_EXTENSIONS_src"
    "lit ''a.py'' \<notin> set EXCLUSION_PATTERNS_src" "lit ''proj'' \<notin> set EXCLUSION_PATTERNS_src"
    by simp_all
  from m1 f1 m2 f2 f3 show ?thesis by simp
qed

text \<open>
  C1 as stated fails for \<open>list_files\<close>: scanning the directory \<open>build\<close> returns the path
  \<open>build/a.py\<close>, whose first component is in the exclusion set.
\<close>

theorem scan_root_counterexample:
  "list_files (lit ''build'') (Some example_project) = [([lit ''build'', lit ''a.py''], a_py)]
   \<and> lit ''build'' \<in> set [lit ''build'', lit ''a.py'']
   \<and> lit ''build'' \<in> EXCLUSION_PATTERNS"
  by (simp add: list_files_def example_project_def a_py_def b_png_def x_js_def parts_def
      splitroot_def path_suffix_def path_name_def has_root_def suffix_of_name_def
      SUPPORTED_EXTENSIONS_def EXCLUSION_PATTERNS_def lit_def)


section \<open>Truncation of file contents (C2)\<close>

lemma truncate_over:
  "0 \<le> limit \<Longrightarrow> int (length cont) > limit \<Longrightarrow>
     truncate_content limit cont = take (nat limit) cont @ lit ''\<newline>...(truncated)...''"
  by (simp add: truncate_content_def slice_to_def)

lemma truncate_within:
  "int (length cont) \<le> limit \<Longrightarrow> truncate_content limit cont = cont"
  by (simp add: truncate_content_def)

lemma truncate_src_over:
  "0 \<le> limit \<Longrightarrow> int (length cont) > limit \<Longrightarrow>
     truncate_content_src limit cont = take (nat limit) cont @ lit ''\<newline>... [Content Truncated] ...''"
  by (simp add: truncate_content_src_def slice_to_def)

lemma truncate_src_within:
  "int (length cont) \<le> limit \<Longrightarrow> truncate_content_src limit cont = cont"
  by (simp add: truncate_content_src_def)

lemma summarise_stores:
  "read_file_content fp = Some cont \<Longrightarrow> cont \<noteq> [] \<Longrightarrow>
     \<exists>s. summarise agent fp = [s] \<and> content s = Some (truncate_content (max_chars_per_file agent) cont)"
  by (simp add: summarise_def Let_def)

lemma summarise_src_stores:
  assumes "\<forall>x \<in> set (fst fp). x \<notin> set EXCLUSION_PATTERNS_src"
    and "path_suffix (fst fp) \<in> set SUPPORTED_EXTENSIONS_src"
    and "read_text (snd fp) UTF8 = Text cont"
    and "fst fp = root @ rel"
  shows "summarise_src root limit fp
           = [\<lparr>relative_path = path_str rel, content_src = truncate_content_src limit cont\<rparr>]"
proof -
  obtain file_path n where fp: "fp = (file_path, n)" by (cases fp)
  from assms(3) fp have "\<not> is_dir n" by (cases n) auto
  moreover from assms(1) fp have "\<not> (\<exists>part \<in> set file_path. part \<in> set EXCLUSION_PATTERNS_src)"
    by auto
  moreover from assms(4) fp have "relative_to file_path root = Some rel"
    by (simp add: relative_to_def)
  ultimately show ?thesis
    using assms(2,3) fp by (simp add: summarise_src_def)
qed

lemma stored_app:
  assumes "fp \<in> set (list_files (project_path agent) tgt)"
    and "read_file_content fp = Some cont" and "cont \<noteq> []"
  shows "\<exists>s \<in> set (get_file_summaries agent tgt). summarise agent fp = [s] \<and>
           content s = Some (truncate_content (max_chars_per_file agent) cont)"
proof -
  from summarise_stores [OF assms(2,3), of agent] obtain s where
    s: "summarise agent fp = [s]" "content s = Some (truncate_content (max_chars_per_file agent) cont)"
    by blast
  from s(1) assms(1) have "s \<in> set (get_file_summaries agent tgt)"
    unfolding get_file_summaries_concat by force
  with s show ?thesis by blast
qed

lemma stored_src:
  assumes "fp \<in> set (rglob (parts root_path) nd)"
    and "\<forall>x \<in> set (fst fp). x \<notin> set EXCLUSION_PATTERNS_src"
    and "path_suffix (fst fp) \<in> set SUPPORTED_EXTENSIONS_src"
    and "read_text (snd fp) UTF8 = Text cont"
  shows "\<exists>s \<in> set (get_file_summaries_src root_path limit (Some nd)).
           summarise_src (parts root_path) limit fp = [s] \<and>
           content_src s = truncate_content_src limit cont"
proof -
  obtain p n where pn: "fp = (p, n)" by (cases fp)
  with assms(1) rglob_prefix obtain rel where "p = parts root_path @ rel" by blast
  with pn have "fst fp = parts root_path @ rel" by simp
  from summarise_src_stores [OF assms(2,3,4) this, of limit]
  have s: "summarise_src (parts root_path) limit fp
           = [\<lparr>relative_path = path_str rel, content_src = truncate_content_src limit cont\<rparr>]" .
  with assms(1) have "\<lparr>relative_path = path_str rel, content_src = truncate_content_src limit cont\<rparr>
      \<in> set (get_file_summaries_src root_path limit (Some nd))"
    unfolding get_file_summaries_src_concat by force
  with s show ?thesis by simp
qed

text \<open>
  C2, as the code has it, for a configured maximum \<open>limit\<close> that is not negative. In
  \<open>src/app\<close>, a scanned file whose content was read and is not empty has a summary in the
  result; in \<open>src/src\<close>, a scanned file that passes the filters and was read as UTF-8 has
  one. When the content is longer than \<open>limit\<close>, the content stored in that summary is the
  first \<open>limit\<close> characters followed by the truncation marker of the variant, so it ends
  with the marker and is at most \<open>limit\<close> plus the length of the marker long. When the
  content is at most \<open>limit\<close> long it is stored unchanged, without marker.
\<close>

theorem truncation_policy:
  assumes "0 \<le> limit"
  shows "(fp \<in> set (list_files (project_path agent) tgt) \<and> max_chars_per_file agent = limit \<and>
          read_file_content fp = Some cont \<and> int (length cont) > limit \<longrightarrow>
            (\<exists>s \<in> set (get_file_summaries agent tgt). summarise agent fp = [s] \<and>
                 content s = Some (take (nat limit) cont @ lit ''\<newline>...(truncated)...'') \<and>
                 int (length (take (nat limit) cont @ lit ''\<newline>...(truncated)...''))
                   \<le> limit + int (length (lit ''\<newline>...(truncated)...''))))
       \<and> (fp \<in> set (list_files (project_path agent) tgt) \<and> max_chars_per_file agent = limit \<and>
          read_file_content fp = Some cont \<and> cont \<noteq> [] \<and> int (length cont) \<le> limit \<longrightarrow>
            (\<exists>s \<in> set (get_file_summaries agent tgt). summarise agent fp = [s] \<and> content s = Some cont))
       \<and> (fp \<in> set (rglob (parts root_path) nd) \<and>
          (\<forall>x \<in> set (fst fp). x \<notin> set EXCLUSION_PATTERNS_src) \<and>
          path_suffix (fst fp) \<in> set SUPPORTED_EXTENSIONS_src \<and>
          read_text (snd fp) UTF8 = Text cont \<and> int (length cont) > limit \<longrightarrow>
            (\<exists>s \<in> set (get_file_summaries_src root_path limit (Some nd)).
                 summarise_src (parts root_path) limit fp = [s] \<and>
                 content_src s = take (nat limit) cont @ lit ''\<newline>... [Content Truncated] ...'' \<and>
                 int (length (content_src s)) \<le> limit + int (length (lit ''\<newline>... [Content Truncated] ...''))))
       \<and> (fp \<in> set (rglob (parts root_path) nd) \<and>
          (\<forall>x \<in> set (fst fp). x \<notin> set EXCLUSION_PATTERNS_src) \<and>
          path_suffix (fst fp) \<in> set SUPPORTED_EXTENSIONS_src \<and>
          read_text (snd fp) UTF8 = Text cont \<and> int (length cont) \<le> limit \<longrightarrow>
            (\<exists>s \<in> set (get_file_summaries_src root_path limit (Some nd)).
                 summarise_src (parts root_path) limit fp = [s] \<and> content_src s = cont))"
proof (intro conjI impI)
  assume a: "fp \<in> set (list_files (project_path agent) tgt) \<and> max_chars_per_file agent = limit \<and>
          read_file_content fp = Some cont \<and> int (length cont) > limit"
  with assms have ne: "cont \<noteq> []" by auto
  from stored_app [of fp agent tgt cont] a ne obtain s where
    s: "s \<in> set (get_file_summaries agent tgt)" "summarise agent fp = [s]"
       "content s = Some (truncate_content limit cont)" by auto
  from a assms have t: "truncate_content limit cont = take (nat limit) cont @ lit ''\<newline>...(truncated)...''"
    by (simp add: truncate_over)
  from a assms have "int (length (take (nat limit) cont @ lit ''\<newline>...(truncated)...''))
                   \<le> limit + int (length (lit ''\<newline>...(truncated)...''))"
    by simp
  with s t show "\<exists>s \<in> set (get_file_summaries agent tgt). summarise agent fp = [s] \<and>
                 content s = Some (take (nat limit) cont @ lit ''\<newline>...(truncated)...'') \<and>
                 int (length (take (nat limit) cont @ lit ''\<newline>...(truncated)...''))
                   \<le> limit + int (length (lit ''\<newline>...(truncated)...''))"
    by auto
next
  assume a: "fp \<in> set (list_files (project_path agent) tgt) \<and> max_chars_per_file agent = limit \<and>
          read_file_content fp = Some cont \<and> cont \<noteq> [] \<and> int (length cont) \<le> limit"
  from stored_app [of fp agent tgt cont] a obtain s where
    s: "s \<in> set (get_file_summaries agent tgt)" "summarise agent fp = [s]"
       "content s = Some (truncate_content limit cont)" by auto
  with a show "\<exists>s \<in> set (get_file_summaries agent tgt). summarise agent fp = [s] \<and> content s = Some cont"
    by (auto simp add: truncate_within)
next
  assume a: "fp \<in> set (rglob (parts root_path) nd) \<and>
          (\<forall>x \<in> set (fst fp). x \<notin> set EXCLUSION_PATTERNS_src) \<and>
          path_suffix (fst fp) \<in> set SUPPORTED_EXTENSIONS_src \<and>
          read_text (snd fp) UTF8 = Text cont \<and> int (length cont) > limit"
  from stored_src [of fp root_path nd cont limit] a obtain s where
    s: "s \<in> set (get_file_summaries_src root_path limit (Some nd))"
       "summarise_src (parts root_path) limit fp = [s]"
       "content_src s = truncate_content_src limit cont" by auto
  from a assms have t: "truncate_content_src limit cont
      = take (nat limit) cont @ lit ''\<newline>... [Content Truncated] ...''"
    by (simp add: truncate_src_over)
  from a assms have "int (length (take (nat limit) cont @ lit ''\<newline>... [Content Truncated] ...''))
       \<le> limit + int (length (lit ''\<newline>... [Content Truncated] ...''))"
    by simp
  with s t show "\<exists>s \<in> set (get_file_summaries_src root_path limit (Some nd)).
                 summarise_src (parts root_path) limit fp = [s] \<and>
                 content_src s = take (nat limit) cont @ lit ''\<newline>... [Content Truncated] ...'' \<and>
                 int (length (content_src s)) \<le> limit + int (length (lit ''\<newline>... [Content Truncated] ...''))"
    by auto
next
  assume a: "fp \<in> set (rglob (parts root_path) nd) \<and>
          (\<forall>x \<in> set (fst fp). x \<notin> set EXCLUSION_PATTERNS_src) \<and>
          path_suffix (fst fp) \<in> set SUPPORTED_EXTENSIONS_src \<and>
          read_text (snd fp) UTF8 = Text cont \<and> int (length cont) \<le> limit"
  from stored_src [of fp root_path nd cont limit] a obtain s where
    s: "s \<in> set (get_file_summaries_src root_path limit (Some nd))"
       "summarise_src (parts root_path) limit fp = [s]"
       "content_src s = truncate_content_src limit cont" by auto
  with a show "\<exists>s \<in> set (get_file_summaries_src root_path limit (Some nd)).
                 summarise_src (parts root_path) limit fp = [s] \<and> content_src s = cont"
    by (auto simp add: truncate_src_within)
qed


theorem truncation_policy_witness:
  "get_file_summaries (READMEAgent_init None (lit ''proj'') 10) (Some example_project)
     = [\<lparr>path = lit ''a.py'', extension = lit ''.py'', summary = Some (lit ''Content of a.py''),
         content = Some (lit ''0123456789\<newline>...(truncated)...'')\<rparr>]
   \<and> get_file_summaries (READMEAgent_init None (lit ''proj'') 20) (Some example_project)
     = [\<lparr>path = lit ''a.py'', extension = lit ''.py'', summary = Some (lit ''Content of a.py''),
         content = Some (lit ''0123456789ABCDEFGHIJ'')\<rparr>]
   \<and> get_file_summaries_src (lit ''proj'') 10 (Some example_project)
     = [\<lparr>relative_path = lit ''a.py'', content_src = lit ''0123456789\<newline>... [Content Truncated] ...''\<rparr>]
   \<and> get_file_summaries_src (lit ''proj'') 20 (Some example_project)
     = [\<lparr>relative_path = lit ''a.py'', content_src = lit ''0123456789ABCDEFGHIJ''\<rparr>]"
proof -
  let ?fp = "([lit ''proj'', lit ''a.py''], a_py)"
  let ?c = "lit ''0123456789ABCDEFGHIJ''"
  let ?tgt = "Some example_project"
  have r: "read_file_content ?fp = Some ?c" "read_text (snd ?fp) UTF8 = Text ?c"
    by (simp_all add: read_file_content_def a_py_def)
  have len: "length ?c = 20" "?c \<noteq> []" by (simp_all add: lit_def)
  have root: "parts (lit ''proj'') = [lit ''proj'']"
    by (simp add: parts_def splitroot_def lit_def)
  have lf: "list_files (lit ''proj'') ?tgt = [?fp]"
    by (simp add: list_files_def example_project_def a_py_def b_png_def x_js_def parts_def
        splitroot_def path_suffix_def path_name_def has_root_def suffix_of_name_def
        SUPPORTED_EXTENSIONS_def EXCLUSION_PATTERNS_def lit_def)
  have pp: "\<And>limit. project_path (READMEAgent_init None (lit ''proj'') limit) = lit ''proj''"
    "\<And>limit. max_chars_per_file (READMEAgent_init None (lit ''proj'') limit) = limit"
    by (simp_all add: READMEAgent_init_def)
  have g: "\<And>limit. get_file_summaries (READMEAgent_init None (lit ''proj'') limit) ?tgt
             = summarise (READMEAgent_init None (lit ''proj'') limit) ?fp"
    by (simp add: get_file_summaries_concat pp lf)
  have rg: "?fp \<in> set (rglob (parts (lit ''proj'')) example_project)"
    by (simp add: root example_project_def a_py_def)
  have flt: "\<forall>x \<in> set (fst ?fp). x \<notin> set EXCLUSION_PATTERNS_src"
    "path_suffix (fst ?fp) \<in> set SUPPORTED_EXTENSIONS_src"
    by (simp_all add: path_suffix_def path_name_def has_root_def suffix_of_name_def
        SUPPORTED_EXTENSIONS_src_def EXCLUSION_PATTERNS_src_def lit_def)
  have gs: "\<And>limit. get_file_summaries_src (lit ''proj'') limit ?tgt
             = summarise_src (parts (lit ''proj'')) limit ?fp"
    by (simp add: get_file_summaries_src_concat parts_def splitroot_def example_project_def
        summarise_src_def a_py_def b_png_def x_js_def path_suffix_def path_name_def has_root_def
        suffix_of_name_def SUPPORTED_EXTENSIONS_src_def EXCLUSION_PATTERNS_src_def lit_def)
  have shape1: "\<And>limit. \<exists>c. summarise (READMEAgent_init None (lit ''proj'') limit) ?fp
     = [\<lparr>path = lit ''a.py'', extension = lit ''.py'', summary = Some (lit ''Content of a.py''), content = c\<rparr>]"
    using r(1) len(2)
    by (simp add: summarise_def READMEAgent_init_def Let_def parts_def splitroot_def relative_to_def path_str_def
        has_root_def path_suffix_def path_name_def suffix_of_name_def lit_def)
  have shape2: "\<And>limit. \<exists>c. summarise_src (parts (lit ''proj'')) limit ?fp
     = [\<lparr>relative_path = lit ''a.py'', content_src = c\<rparr>]"
    using summarise_src_stores [OF flt r(2), of "[lit ''proj'']" "[lit ''a.py'']"]
    by (simp add: parts_def splitroot_def path_str_def has_root_def lit_def)
  have t: "take (nat 10) ?c = lit ''0123456789''" by (simp add: lit_def)
  have s1: "\<exists>s. summarise (READMEAgent_init None (lit ''proj'') 10) ?fp = [s] \<and>
                 content s = Some (take (nat 10) ?c @ lit ''\<newline>...(truncated)...'')"
    using truncation_policy [of 10 ?fp "READMEAgent_init None (lit ''proj'') 10" ?tgt ?c] r len lf
    by (auto simp add: pp)
  have s2: "\<exists>s. summarise (READMEAgent_init None (lit ''proj'') 20) ?fp = [s] \<and> content s = Some ?c"
    using truncation_policy [of 20 ?fp "READMEAgent_init None (lit ''proj'') 20" ?tgt ?c] r len lf
    by (auto simp add: pp)
  have s3: "\<exists>s. summarise_src (parts (lit ''proj'')) 10 ?fp = [s] \<and>
              content_src s = take (nat 10) ?c @ lit ''\<newline>... [Content Truncated] ...''"
    using truncation_policy [of 10 ?fp _ _ ?c "lit ''proj''" example_project] r len rg flt
    by auto
  have s4: "\<exists>s. summarise_src (parts (lit ''proj'')) 20 ?fp = [s] \<and> content_src s = ?c"
    using truncation_policy [of 20 ?fp _ _ ?c "lit ''proj''" example_project] r len rg flt
    by auto
  from shape1 [of 10] s1 t have c1: "summarise (READMEAgent_init None (lit ''proj'') 10) ?fp
     = [\<lparr>path = lit ''a.py'', extension = lit ''.py'', summary = Some (lit ''Content of a.py''),
         content = Some (lit ''0123456789\<newline>...(truncated)...'')\<rparr>]"
    by (auto simp add: lit_def)
  from shape1 [of 20] s2 have c2: "summarise (READMEAgent_init None (lit ''proj'') 20) ?fp
     = [\<lparr>path = lit ''a.py'', extension = lit ''.py'', summary = Some (lit ''Content of a.py''),
         content = Some (lit ''0123456789ABCDEFGHIJ'')\<rparr>]"
    by auto
  from shape2 [of 10] s3 t have c3: "summarise_src (parts (lit ''proj'')) 10 ?fp
     = [\<lparr>relative_path = lit ''a.py'', content_src = lit ''0123456789\<newline>... [Content Truncated] ...''\<rparr>]"
    by (auto simp add: lit_def)
  from shape2 [of 20] s4 have c4: "summarise_src (parts (lit ''proj'')) 20 ?fp
     = [\<lparr>relative_path = lit ''a.py'', content_src = lit ''0123456789ABCDEFGHIJ''\<rparr>]"
    by auto
  from c1 c2 c3 c4 show ?thesis by (simp add: g gs)
qed

text \<open>
  C2 as stated fails for a negative maximum, which \<open>--max-chars\<close> accepts: with
  \<open>max_chars_per_file = -1\<close> the slice drops the last character only, so the stored content
  is 19 characters and the marker, longer than \<open>-1\<close> plus the length of the marker.
\<close>

theorem truncation_negative_counterexample:
  "get_file_summaries (READMEAgent_init None (lit ''proj'') (- 1)) (Some example_project)
     = [\<lparr>path = lit ''a.py'', extension = lit ''.py'', summary = Some (lit ''Content of a.py''),
         content = Some (lit ''0123456789ABCDEFGHI\<newline>...(truncated)...'')\<rparr>]
   \<and> int (length (lit ''0123456789ABCDEFGHIJ'')) > - 1
   \<and> \<not> int (length (lit ''0123456789ABCDEFGHI\<newline>...(truncated)...''))
         \<le> - 1 + int (length (lit ''\<newline>...(truncated)...''))"
  by (simp add: get_file_summaries_def summarise_def read_file_content_def truncate_content_def slice_to_def Let_def
      READMEAgent_init_def list_files_def example_project_def a_py_def b_png_def x_js_def parts_def
      splitroot_def path_suffix_def path_name_def has_root_def suffix_of_name_def relative_to_def
      path_str_def SUPPORTED_EXTENSIONS_def EXCLUSION_PATTERNS_def lit_def)


section \<open>Files that cannot be read are left out (C5)\<close>

lemma summarise_nothing:
  "read_file_content fp = None \<or> read_file_content fp = Some [] \<Longrightarrow> summarise agent fp = []"
  by (auto simp add: summarise_def)

lemma summarise_content:
  "s \<in> set (summarise agent fp) \<Longrightarrow>
     \<exists>cont. read_file_content fp = Some cont \<and> cont \<noteq> [] \<and>
       content s = Some (truncate_content (max_chars_per_file agent) cont)"
  by (cases "read_file_content fp") (auto simp add: summarise_def Let_def split: if_splits)



text \<open>
  C5, as the code has it. \<open>read_file_content\<close> (\<open>src/app\<close>) returns the UTF-8 text when that
  read succeeds; when it raises \<open>UnicodeDecodeError\<close> it returns the Latin-1 text, or null
  when the second read fails too; any other failure of the first read gives null. A file
  for which it returns null adds nothing, and every summary returned comes from a file
  that was read as non-empty text. The reader in \<open>get_file_summaries\<close> (\<open>src/src\<close>) reads as
  UTF-8 only: a file whose read fails adds nothing, and there is no fallback.
\<close>

theorem decoding_policy:
  "(\<forall>cont. read_text (snd fp) UTF8 = Text cont \<longrightarrow> read_file_content fp = Some cont)
   \<and> (\<forall>cont. read_text (snd fp) UTF8 = UnicodeDecodeError \<and> read_text (snd fp) Latin1 = Text cont
         \<longrightarrow> read_file_content fp = Some cont)
   \<and> (read_text (snd fp) UTF8 = UnicodeDecodeError \<and> (\<forall>cont. read_text (snd fp) Latin1 \<noteq> Text cont)
         \<longrightarrow> read_file_content fp = None)
   \<and> (read_text (snd fp) UTF8 = OSError \<longrightarrow> read_file_content fp = None)
   \<and> (read_file_content fp = None \<longrightarrow> summarise agent fp = [])
   \<and> (\<forall>s \<in> set (get_file_summaries agent tgt).
         \<exists>fq \<in> set (list_files (project_path agent) tgt). \<exists>cont.
            read_file_content fq = Some cont \<and> cont \<noteq> [] \<and> s \<in> set (summarise agent fq))
   \<and> ((\<forall>cont. read_text (snd fp) UTF8 \<noteq> Text cont) \<longrightarrow> summarise_src root limit fp = [])
   \<and> (\<forall>s \<in> set (get_file_summaries_src root_path limit tgt).
         \<exists>fq cont. read_text (snd fq) UTF8 = Text cont \<and> s \<in> set (summarise_src (parts root_path) limit fq))"
proof (intro conjI allI impI ballI)
  fix cont assume "read_text (snd fp) UTF8 = Text cont"
  then show "read_file_content fp = Some cont" by (simp add: read_file_content_def)
next
  fix cont assume "read_text (snd fp) UTF8 = UnicodeDecodeError \<and> read_text (snd fp) Latin1 = Text cont"
  then show "read_file_content fp = Some cont" by (simp add: read_file_content_def)
next
  assume "read_text (snd fp) UTF8 = UnicodeDecodeError \<and> (\<forall>cont. read_text (snd fp) Latin1 \<noteq> Text cont)"
  then show "read_file_content fp = None"
    by (cases "read_text (snd fp) Latin1") (simp_all add: read_file_content_def)
next
  assume "read_text (snd fp) UTF8 = OSError"
  then show "read_file_content fp = None" by (simp add: read_file_content_def)
next
  assume "read_file_content fp = None"
  then show "summarise agent fp = []" by (simp add: summarise_nothing)
next
  fix s assume "s \<in> set (get_file_summaries agent tgt)"
  then obtain fq where fq: "fq \<in> set (list_files (project_path agent) tgt)" "s \<in> set (summarise agent fq)"
    by (auto simp add: get_file_summaries_concat)
  from summarise_content [OF fq(2)] obtain cont where "read_file_content fq = Some cont" "cont \<noteq> []"
    by blast
  with fq show "\<exists>fq \<in> set (list_files (project_path agent) tgt). \<exists>cont.
            read_file_content fq = Some cont \<and> cont \<noteq> [] \<and> s \<in> set (summarise agent fq)"
    by blast
next
  assume a: "\<forall>cont. read_text (snd fp) UTF8 \<noteq> Text cont"
  show "summarise_src root limit fp = []"
  proof (rule ccontr)
    assume "summarise_src root limit fp \<noteq> []"
    then obtain s where s: "s \<in> set (summarise_src root limit fp)" by (cases "summarise_src root limit fp") auto
    obtain file_path n where fp: "fp = (file_path, n)" by (cases fp)
    from s [unfolded fp] obtain cont where "read_text n UTF8 = Text cont"
      by (rule summarise_src_cases)
    with a fp show False by simp
  qed
next
  fix s assume s: "s \<in> set (get_file_summaries_src root_path limit tgt)"
  then obtain n where n: "tgt = Some n" by (cases tgt) (auto simp add: get_file_summaries_src_def)
  from s [unfolded n get_file_summaries_src_concat] obtain fq where
    fq: "s \<in> set (summarise_src (parts root_path) limit fq)" by auto
  obtain file_path m where "fq = (file_path, m)" by (cases fq)
  with fq obtain cont where "read_text (snd fq) UTF8 = Text cont"
    by (auto elim: summarise_src_cases)
  with fq show "\<exists>fq cont. read_text (snd fq) UTF8 = Text cont \<and> s \<in> set (summarise_src (parts root_path) limit fq)"
    by blast
qed


theorem decoding_policy_witness:
  "read_file_content ([lit ''proj'', lit ''a.py''], a_py) = Some (lit ''0123456789ABCDEFGHIJ'')
   \<and> read_file_content ([lit ''proj'', lit ''cafe.txt''], cafe_txt) = Some [99, 97, 102, 233]
   \<and> read_file_content ([lit ''proj'', lit ''gone.txt''], gone_txt) = None
   \<and> summarise (READMEAgent_init None (lit ''proj'') 5000) ([lit ''proj'', lit ''gone.txt''], gone_txt) = []
   \<and> summarise_src [lit ''proj''] 5000 ([lit ''proj'', lit ''gone.txt''], gone_txt) = []"
proof -
  let ?a = "([lit ''proj'', lit ''a.py''], a_py)"
  let ?c = "([lit ''proj'', lit ''cafe.txt''], cafe_txt)"
  let ?g = "([lit ''proj'', lit ''gone.txt''], gone_txt)"
  have ra: "read_text (snd ?a) UTF8 = Text (lit ''0123456789ABCDEFGHIJ'')"
    by (simp add: a_py_def)
  have rc: "read_text (snd ?c) UTF8 = UnicodeDecodeError \<and> read_text (snd ?c) Latin1 = Text [99, 97, 102, 233]"
    by (simp add: cafe_txt_def)
  have rg: "read_text (snd ?g) UTF8 = UnicodeDecodeError \<and> (\<forall>cont. read_text (snd ?g) Latin1 \<noteq> Text cont)"
    by (simp add: gone_txt_def)
  have rg': "\<forall>cont. read_text (snd ?g) UTF8 \<noteq> Text cont"
    by (simp add: gone_txt_def)
  from decoding_policy [of ?a] ra
  have 1: "read_file_content ?a = Some (lit ''0123456789ABCDEFGHIJ'')" by blast
  from decoding_policy [of ?c] rc
  have 2: "read_file_content ?c = Some [99, 97, 102, 233]" by blast
  from decoding_policy [of ?g] rg
  have 3: "read_file_content ?g = None" by blast
  from decoding_policy [of ?g "READMEAgent_init None (lit ''proj'') 5000"] 3
  have 4: "summarise (READMEAgent_init None (lit ''proj'') 5000) ?g = []" by blast
  from decoding_policy [of ?g _ _ "[lit ''proj'']" 5000] rg'
  have 5: "summarise_src [lit ''proj''] 5000 ?g = []" by blast
  from 1 2 3 4 5 show ?thesis by simp
qed

text \<open>
  C5 as stated fails for the reader of \<open>src/src\<close>: a file that is not valid UTF-8 but
  decodes under the legacy encoding is left out there, with no second attempt, while the
  reader of \<open>src/app\<close> includes it with its Latin-1 text.
\<close>

theorem no_fallback_counterexample:
  "read_text cafe_txt UTF8 = UnicodeDecodeError
   \<and> read_text cafe_txt Latin1 = Text [99, 97, 102, 233]
   \<and> get_file_summaries_src (lit ''proj'') 5000 (Some (Dir (lit ''proj'') [cafe_txt])) = []
   \<and> get_file_summaries (READMEAgent_init None (lit ''proj'') 5000) (Some (Dir (lit ''proj'') [cafe_txt]))
       = [\<lparr>path = lit ''cafe.txt'', extension = lit ''.txt'', summary = Some (lit ''Content of cafe.txt''),
           content = Some [99, 97, 102, 233]\<rparr>]"
  by (simp add: get_file_summaries_src_def summarise_src_def get_file_summaries_def summarise_def
      read_file_content_def truncate_content_def READMEAgent_init_def list_files_def Let_def
      cafe_txt_def parts_def splitroot_def path_suffix_def path_name_def has_root_def
      suffix_of_name_def relative_to_def path_str_def SUPPORTED_EXTENSIONS_def
      EXCLUSION_PATTERNS_def SUPPORTED_EXTENSIONS_src_def EXCLUSION_PATTERNS_src_def lit_def)


section \<open>An empty file has no section in the context (C10)\<close>







section \<open>Order of the entries in the rendered tree (C6)\<close>

lemma sorted_wrt_sort_key:
  "sorted_wrt (\<lambda>a b. f a \<le> f b) (sort_key f xs)"
  using sorted_sort_key [of f xs] by (simp add: sorted_map)

lemma key_order_app:
  "(is_file a, lower (node_name a)) \<le> (is_file b, lower (node_name b)) \<Longrightarrow>
     (is_file a \<longrightarrow> is_file b) \<and> (is_file a = is_file b \<longrightarrow> lower (node_name a) \<le> lower (node_name b))"
  by (auto simp add: less_eq_prod_def)

lemma append_le_append:
  fixes xs :: "('a :: linorder) list"
  shows "xs @ ys \<le> xs @ zs \<longleftrightarrow> ys \<le> zs"
  by (induction xs) auto

lemma key_order_src:
  "root @ [node_name a] \<le> root @ [node_name b] \<longleftrightarrow> node_name a \<le> node_name b"
  by (auto simp add: append_le_append)

lemma count_list_insort_key:
  "count_list (insort_key f x xs) y = count_list (x # xs) y"
  by (induction xs) auto

lemma count_list_sort_key:
  "count_list (sort_key f xs) y = count_list xs y"
  by (induction xs) (simp_all add: count_list_insort_key)

lemma collect_map_Inr:
  "(\<And>x. x \<in> set xs \<Longrightarrow> f x = Inr (g x)) \<Longrightarrow> collect (map f xs) = Inr (map g xs)"
  by (induction xs) auto

lemma collect_Inr_D:
  "collect rs = Inr ys \<Longrightarrow> rs = map Inr ys"
proof (induction rs arbitrary: ys)
  case Nil
  then show ?case by simp
next
  case (Cons r rs)
  then show ?case
    by (cases r; cases "collect rs") auto
qed

lemma add_to_tree_lists:
  "add_to_tree p (Dir d cs) prefix =
     Inr (concat (map (\<lambda>(i, entry).
            prefix
            @ (if int i = int (length (tree_entries p cs)) - 1
               then [9492, 9472, 9472, 32] else [9500, 9472, 9472, 32])
            @ node_name entry @ (if is_dir entry then lit ''/'' else []) @ lit ''\<newline>''
            @ (if is_dir entry
               then projr (add_to_tree (p @ [node_name entry]) entry
                             (prefix @ (if int i = int (length (tree_entries p cs)) - 1
                                        then lit ''    '' else [9474, 32, 32, 32])))
               else []))
          (enumerate 0 (tree_entries p cs))))"
proof -
  have "collect (map (\<lambda>(i, entry).
             let is_last = (int i = int (length (tree_entries p cs)) - 1);
                 connector = (if is_last then [9492, 9472, 9472, 32] else [9500, 9472, 9472, 32]);
                 line = prefix @ connector @ node_name entry
                          @ (if is_dir entry then lit ''/'' else []) @ lit ''\<newline>''
             in if is_dir entry
                then (let extension = (if is_last then lit ''    '' else [9474, 32, 32, 32])
                      in case add_to_tree (p @ [node_name entry]) entry (prefix @ extension) of
                           Inl e \<Rightarrow> Inl e
                         | Inr sub \<Rightarrow> Inr (line @ sub))
                else Inr line) (enumerate 0 (tree_entries p cs)))
        = Inr (map (\<lambda>(i, entry).
            prefix
            @ (if int i = int (length (tree_entries p cs)) - 1
               then [9492, 9472, 9472, 32] else [9500, 9472, 9472, 32])
            @ node_name entry @ (if is_dir entry then lit ''/'' else []) @ lit ''\<newline>''
            @ (if is_dir entry
               then projr (add_to_tree (p @ [node_name entry]) entry
                             (prefix @ (if int i = int (length (tree_entries p cs)) - 1
                                        then lit ''    '' else [9474, 32, 32, 32])))
               else []))
          (enumerate 0 (tree_entries p cs)))"
  proof (rule collect_map_Inr)
    fix x assume "x \<in> set (enumerate 0 (tree_entries p cs))"
    obtain i entry where x: "x = (i, entry)" by (cases x)
    show "(case x of (i, entry) \<Rightarrow>
             let is_last = (int i = int (length (tree_entries p cs)) - 1);
                 connector = (if is_last then [9492, 9472, 9472, 32] else [9500, 9472, 9472, 32]);
                 line = prefix @ connector @ node_name entry
                          @ (if is_dir entry then lit ''/'' else []) @ lit ''\<newline>''
             in if is_dir entry
                then (let extension = (if is_last then lit ''    '' else [9474, 32, 32, 32])
                      in case add_to_tree (p @ [node_name entry]) entry (prefix @ extension) of
                           Inl e \<Rightarrow> Inl e
                         | Inr sub \<Rightarrow> Inr (line @ sub))
                else Inr line)
        = Inr (case x of (i, entry) \<Rightarrow>
            prefix
            @ (if int i = int (length (tree_entries p cs)) - 1
               then [9492, 9472, 9472, 32] else [9500, 9472, 9472, 32])
            @ node_name entry @ (if is_dir entry then lit ''/'' else []) @ lit ''\<newline>''
            @ (if is_dir entry
               then projr (add_to_tree (p @ [node_name entry]) entry
                             (prefix @ (if int i = int (length (tree_entries p cs)) - 1
                                        then lit ''    '' else [9474, 32, 32, 32])))
               else []))"
    proof (cases "is_dir entry")
      case False
      with x show ?thesis by (simp add: Let_def)
    next
      case True
      from add_to_tree_total [OF True] obtain added where
        "add_to_tree (p @ [node_name entry]) entry
           (prefix @ (if int i = int (length (tree_entries p cs)) - 1
                      then lit ''    '' else [9474, 32, 32, 32])) = Inr added"
        by blast
      with x True show ?thesis by (simp add: Let_def)
    qed
  qed
  then show ?thesis
    by (simp add: add_to_tree_Dir Let_def)
qed


lemma generate_directory_tree_src_lists:
  assumes "generate_directory_tree_src root (Dir d cs) indent = Inr out"
  shows "out = join (lit ''\<newline>'') (concat (map (\<lambda>(i, item).
            [indent
             @ (if int i = int (length (tree_items_src root cs)) - 1
                then [9492, 9472, 9472, 32] else [9500, 9472, 9472, 32])
             @ node_name item]
            @ (if is_dir item
               then [projr (generate_directory_tree_src (root @ [node_name item]) item
                              (indent @ (if int i = int (length (tree_items_src root cs)) - 1
                                         then lit ''    '' else [9474, 32, 32, 32])))]
               else []))
          (enumerate 0 (tree_items_src root cs))))"
proof -
  define f where "f = (\<lambda>(i :: nat, item).
             let is_last = (int i = int (length (tree_items_src root cs)) - 1);
                 connector = (if is_last then [9492, 9472, 9472, 32] else [9500, 9472, 9472, 32 :: nat]);
                 line = indent @ connector @ node_name item
             in if is_dir item
                then (let extension = (if is_last then lit ''    '' else [9474, 32, 32, 32])
                      in case generate_directory_tree_src (root @ [node_name item]) item (indent @ extension) of
                           Inl e \<Rightarrow> Inl e
                         | Inr sub \<Rightarrow> Inr [line, sub])
                else Inr [line])"
  define g where "g = (\<lambda>(i :: nat, item).
            [indent
             @ (if int i = int (length (tree_items_src root cs)) - 1
                then [9492, 9472, 9472, 32] else [9500, 9472, 9472, 32 :: nat])
             @ node_name item]
            @ (if is_dir item
               then [projr (generate_directory_tree_src (root @ [node_name item]) item
                              (indent @ (if int i = int (length (tree_items_src root cs)) - 1
                                         then lit ''    '' else [9474, 32, 32, 32])))]
               else []))"
  from assms have c: "(case collect (map f (enumerate 0 (tree_items_src root cs))) of
        Inl e \<Rightarrow> Inl e
      | Inr tree \<Rightarrow> Inr (join (lit ''\<newline>'') (concat tree))) = Inr out"
    by (simp add: generate_directory_tree_src_Dir f_def Let_def)
  then obtain tree where t: "collect (map f (enumerate 0 (tree_items_src root cs))) = Inr tree"
    and o: "out = join (lit ''\<newline>'') (concat tree)"
    by (cases "collect (map f (enumerate 0 (tree_items_src root cs)))") auto
  from collect_Inr_D [OF t] have m: "map f (enumerate 0 (tree_items_src root cs)) = map Inr tree" .
  have "f x = Inr (g x)" if "x \<in> set (enumerate 0 (tree_items_src root cs))" for x
  proof -
    from that m have "f x \<in> set (map Inr tree)" by (metis image_eqI set_map)
    then obtain y where y: "f x = Inr y" by auto
    obtain i item where x: "x = (i, item)" by (cases x)
    show ?thesis
    proof (cases "is_dir item")
      case False
      with x show ?thesis by (simp add: f_def g_def Let_def)
    next
      case True
      with y x show ?thesis
        by (cases "generate_directory_tree_src (root @ [node_name item]) item
              (indent @ (if int i = int (length (tree_items_src root cs)) - 1
                         then lit ''    '' else [9474, 32, 32, 32]))")
           (simp_all add: f_def g_def Let_def)
    qed
  qed
  then have "collect (map f (enumerate 0 (tree_items_src root cs)))
               = Inr (map g (enumerate 0 (tree_items_src root cs)))"
    by (rule collect_map_Inr)
  with t have "tree = map g (enumerate 0 (tree_items_src root cs))" by simp
  with o show ?thesis by (simp add: g_def)
qed

text \<open>
  C6, as the code has it. In \<open>src/app\<close> the renderer writes, for a directory, one line for
  each child that is not excluded, followed by the rendering of that child when it is a
  directory, in the order of \<open>tree_entries\<close>: each such child once, no file before a
  directory, and within the directories and within the files the names in alphabetical
  order of their lower-case forms. In \<open>src/src\<close> the renderer, when it returns, has written
  the lines in the order of \<open>tree_items_src\<close>: each child that is not excluded once,
  ascending by name, compared as written, files and directories mixed.
\<close>

theorem tree_order:
  "sorted_wrt (\<lambda>a b. (is_file a \<longrightarrow> is_file b) \<and>
                      (is_file a = is_file b \<longrightarrow> lower (node_name a) \<le> lower (node_name b)))
     (tree_entries p cs)
   \<and> (\<forall>e. count_list (tree_entries p cs) e
         = count_list (filter (\<lambda>e. node_name e \<notin> EXCLUSION_PATTERNS \<and>
                                    \<not> should_exclude (p @ [node_name e])) cs) e)
   \<and> add_to_tree p (Dir d cs) prefix =
       Inr (concat (map (\<lambda>(i, entry).
            prefix
            @ (if int i = int (length (tree_entries p cs)) - 1
               then [9492, 9472, 9472, 32] else [9500, 9472, 9472, 32])
            @ node_name entry @ (if is_dir entry then lit ''/'' else []) @ lit ''\<newline>''
            @ (if is_dir entry
               then projr (add_to_tree (p @ [node_name entry]) entry
                             (prefix @ (if int i = int (length (tree_entries p cs)) - 1
                                        then lit ''    '' else [9474, 32, 32, 32])))
               else []))
          (enumerate 0 (tree_entries p cs))))
   \<and> sorted_wrt (\<lambda>a b. node_name a \<le> node_name b) (tree_items_src root cs)
   \<and> (\<forall>e. count_list (tree_items_src root cs) e
         = count_list (filter (\<lambda>e. node_name e \<notin> set EXCLUSION_PATTERNS_src) cs) e)
   \<and> (\<forall>out. generate_directory_tree_src root (Dir d cs) indent = Inr out \<longrightarrow>
         out = join (lit ''\<newline>'') (concat (map (\<lambda>(i, item).
            [indent
             @ (if int i = int (length (tree_items_src root cs)) - 1
                then [9492, 9472, 9472, 32] else [9500, 9472, 9472, 32])
             @ node_name item]
            @ (if is_dir item
               then [projr (generate_directory_tree_src (root @ [node_name item]) item
                              (indent @ (if int i = int (length (tree_items_src root cs)) - 1
                                         then lit ''    '' else [9474, 32, 32, 32])))]
               else []))
          (enumerate 0 (tree_items_src root cs)))))"
proof (intro conjI allI impI)
  have "sorted_wrt (\<lambda>a b. (is_file a, lower (node_name a)) \<le> (is_file b, lower (node_name b)))
          (tree_entries p cs)"
    unfolding tree_entries_def by (rule sorted_wrt_sort_key)
  then show "sorted_wrt (\<lambda>a b. (is_file a \<longrightarrow> is_file b) \<and>
                      (is_file a = is_file b \<longrightarrow> lower (node_name a) \<le> lower (node_name b)))
     (tree_entries p cs)"
    by (rule sorted_wrt_mono_rel [rotated]) (rule key_order_app)
  have "sorted_wrt (\<lambda>a b. root @ [node_name a] \<le> root @ [node_name b]) (tree_items_src root cs)"
    unfolding tree_items_src_def by (rule sorted_wrt_sort_key)
  then show "sorted_wrt (\<lambda>a b. node_name a \<le> node_name b) (tree_items_src root cs)"
    by (simp add: key_order_src)
next
  fix e show "count_list (tree_entries p cs) e
         = count_list (filter (\<lambda>e. node_name e \<notin> EXCLUSION_PATTERNS \<and>
                                    \<not> should_exclude (p @ [node_name e])) cs) e"
    by (simp add: tree_entries_def count_list_sort_key)
next
  fix e show "count_list (tree_items_src root cs) e
         = count_list (filter (\<lambda>e. node_name e \<notin> set EXCLUSION_PATTERNS_src) cs) e"
    by (simp add: tree_items_src_def count_list_sort_key)
next
  show "add_to_tree p (Dir d cs) prefix =
       Inr (concat (map (\<lambda>(i, entry).
            prefix
            @ (if int i = int (length (tree_entries p cs)) - 1
               then [9492, 9472, 9472, 32] else [9500, 9472, 9472, 32])
            @ node_name entry @ (if is_dir entry then lit ''/'' else []) @ lit ''\<newline>''
            @ (if is_dir entry
               then projr (add_to_tree (p @ [node_name entry]) entry
                             (prefix @ (if int i = int (length (tree_entries p cs)) - 1
                                        then lit ''    '' else [9474, 32, 32, 32])))
               else []))
          (enumerate 0 (tree_entries p cs))))"
    by (rule add_to_tree_lists)
next
  fix out assume "generate_directory_tree_src root (Dir d cs) indent = Inr out"
  then show "out = join (lit ''\<newline>'') (concat (map (\<lambda>(i, item).
            [indent
             @ (if int i = int (length (tree_items_src root cs)) - 1
                then [9492, 9472, 9472, 32] else [9500, 9472, 9472, 32])
             @ node_name item]
            @ (if is_dir item
               then [projr (generate_directory_tree_src (root @ [node_name item]) item
                              (indent @ (if int i = int (length (tree_items_src root cs)) - 1
                                         then lit ''    '' else [9474, 32, 32, 32])))]
               else []))
          (enumerate 0 (tree_items_src root cs))))"
    by (rule generate_directory_tree_src_lists)
qed


theorem tree_order_witness:
  "tree_entries [lit ''proj''] [a_py, lib_dir, B_txt] = [lib_dir, a_py, B_txt]
   \<and> sorted_wrt (\<lambda>a b. (is_file a \<longrightarrow> is_file b) \<and>
                      (is_file a = is_file b \<longrightarrow> lower (node_name a) \<le> lower (node_name b)))
        [lib_dir, a_py, B_txt]
   \<and> tree_items_src [lit ''proj''] [a_py, lib_dir, B_txt] = [B_txt, a_py, lib_dir]
   \<and> sorted_wrt (\<lambda>a b. node_name a \<le> node_name b) [B_txt, a_py, lib_dir]
   \<and> generate_directory_tree (lit ''proj'') (Some mixed_project)
       = Inr (lit ''proj/\<newline>'' @ [9500, 9472, 9472, 32] @ lit ''lib/\<newline>''
              @ [9474, 32, 32, 32, 9492, 9472, 9472, 32] @ lit ''x.js\<newline>''
              @ [9500, 9472, 9472, 32] @ lit ''a.py\<newline>''
              @ [9492, 9472, 9472, 32] @ lit ''B.txt\<newline>'')"
proof -
  have e: "tree_entries [lit ''proj''] [a_py, lib_dir, B_txt] = [lib_dir, a_py, B_txt]"
    by (simp add: tree_entries_def a_py_def lib_dir_def B_txt_def x_js_def lower_def lower_cp_def
        EXCLUSION_PATTERNS_def lit_def less_eq_prod_def)
  have i: "tree_items_src [lit ''proj''] [a_py, lib_dir, B_txt] = [B_txt, a_py, lib_dir]"
    by (simp add: tree_items_src_def a_py_def lib_dir_def B_txt_def x_js_def
        EXCLUSION_PATTERNS_src_def lit_def)
  have g: "generate_directory_tree (lit ''proj'') (Some mixed_project)
       = Inr (lit ''proj/\<newline>'' @ [9500, 9472, 9472, 32] @ lit ''lib/\<newline>''
              @ [9474, 32, 32, 32, 9492, 9472, 9472, 32] @ lit ''x.js\<newline>''
              @ [9500, 9472, 9472, 32] @ lit ''a.py\<newline>''
              @ [9492, 9472, 9472, 32] @ lit ''B.txt\<newline>'')"
    by (simp add: generate_directory_tree_def add_to_tree_Dir add_to_tree_NoAccess add_to_tree_File
        tree_entries_def parts_def splitroot_def path_name_def has_root_def
        mixed_project_def a_py_def lib_dir_def B_txt_def x_js_def lower_def lower_cp_def
        EXCLUSION_PATTERNS_def lit_def less_eq_prod_def Let_def)
  note th = tree_order [of "[lit ''proj'']" "[a_py, lib_dir, B_txt]" "lit ''proj''" "[]" "[lit ''proj'']" "[]"]
  from th [THEN conjunct1] e
  have s1: "sorted_wrt (\<lambda>a b. (is_file a \<longrightarrow> is_file b) \<and>
                      (is_file a = is_file b \<longrightarrow> lower (node_name a) \<le> lower (node_name b)))
        [lib_dir, a_py, B_txt]"
    by (simp only:)
  from th [THEN conjunct2, THEN conjunct2, THEN conjunct2, THEN conjunct1] i
  have s2: "sorted_wrt (\<lambda>a b. node_name a \<le> node_name b) [B_txt, a_py, lib_dir]"
    by (simp only:)
  from e s1 i s2 g show ?thesis by (intro conjI)
qed

text \<open>
  C6 as stated fails for the renderer of \<open>src/src\<close>: it lists the files \<open>B.txt\<close> and \<open>a.py\<close>
  before the directory \<open>lib\<close>, and \<open>B.txt\<close> before \<open>a.py\<close>.
\<close>

theorem tree_order_src_counterexample:
  "tree_src (lit ''proj'') (Some mixed_project)
     = Inr ([9500, 9472, 9472, 32] @ lit ''B.txt\<newline>''
            @ [9500, 9472, 9472, 32] @ lit ''a.py\<newline>''
            @ [9492, 9472, 9472, 32] @ lit ''lib\<newline>''
            @ lit ''    '' @ [9492, 9472, 9472, 32] @ lit ''x.js'')
   \<and> is_file B_txt \<and> is_file a_py \<and> is_dir lib_dir
   \<and> \<not> lower (node_name B_txt) \<le> lower (node_name a_py)"
proof -
  have top: "tree_src (lit ''proj'') (Some mixed_project)
     = Inr ([9500, 9472, 9472, 32] @ lit ''B.txt\<newline>''
            @ [9500, 9472, 9472, 32] @ lit ''a.py\<newline>''
            @ [9492, 9472, 9472, 32] @ lit ''lib\<newline>''
            @ lit ''    '' @ [9492, 9472, 9472, 32] @ lit ''x.js'')"
    by (simp add: tree_src_def generate_directory_tree_src_Dir generate_directory_tree_src_NoAccess
        generate_directory_tree_src_File tree_items_src_def parts_def splitroot_def
        mixed_project_def a_py_def lib_dir_def B_txt_def x_js_def
        EXCLUSION_PATTERNS_src_def lit_def Let_def)
  have o: "\<not> lower (node_name B_txt) \<le> lower (node_name a_py)"
    by (simp add: B_txt_def a_py_def lower_def lower_cp_def lit_def)
  from top o show ?thesis
    by (simp add: a_py_def B_txt_def lib_dir_def)
qed


section \<open>A directory that cannot be listed (C9)\<close>

text \<open>
  C9. The renderer of \<open>src/app\<close> never raises: on a directory whose listing is denied
  \<open>_add_to_tree\<close> returns without adding anything, so the line of that directory is
  followed by the rest of the tree. The renderer of \<open>src/src\<close> has no handler: the
  \<open>PermissionError\<close> of such a directory leaves \<open>generate_directory_tree\<close> and then
  \<open>generate\<close>, which gathers the context outside its \<open>try\<close>. The project \<open>locked_project\<close>
  shows both.
\<close>

theorem permission_denied:
  "(\<exists>tree. generate_directory_tree directory tgt = Inr tree)
   \<and> add_to_tree p (NoAccess d) prefix = Inr []
   \<and> generate_directory_tree (lit ''proj'') (Some locked_project)
       = Inr (lit ''proj/\<newline>'' @ [9500, 9472, 9472, 32] @ lit ''locked/\<newline>''
              @ [9492, 9472, 9472, 32] @ lit ''a.py\<newline>'')
   \<and> generate_directory_tree_src p (NoAccess d) indent = Inl (PermissionError p)
   \<and> tree_src (lit ''proj'') (Some locked_project)
       = Inl (PermissionError [lit ''proj'', lit ''locked''])
   \<and> generate_src (example_world (Some locked_project) (Some (lit ''key'')))
         \<lparr>client = lit ''key'', project_path_src = lit ''proj'', max_chars_per_file_src = 5000\<rparr> False
       = ([], Inl (PermissionError [lit ''proj'', lit ''locked'']))"
proof (intro conjI)
  show "\<exists>tree. generate_directory_tree directory tgt = Inr tree"
    by (rule generate_directory_tree_total)
  show "add_to_tree p (NoAccess d) prefix = Inr []"
    by (rule add_to_tree_NoAccess)
  show "generate_directory_tree (lit ''proj'') (Some locked_project)
       = Inr (lit ''proj/\<newline>'' @ [9500, 9472, 9472, 32] @ lit ''locked/\<newline>''
              @ [9492, 9472, 9472, 32] @ lit ''a.py\<newline>'')"
    by (simp add: generate_directory_tree_def add_to_tree_Dir add_to_tree_NoAccess add_to_tree_File
        tree_entries_def parts_def splitroot_def path_name_def has_root_def
        locked_project_def a_py_def lower_def lower_cp_def
        EXCLUSION_PATTERNS_def lit_def less_eq_prod_def Let_def)
  show "generate_directory_tree_src p (NoAccess d) indent = Inl (PermissionError p)"
    by (rule generate_directory_tree_src_NoAccess)
  show t: "tree_src (lit ''proj'') (Some locked_project)
       = Inl (PermissionError [lit ''proj'', lit ''locked''])"
    by (simp add: tree_src_def generate_directory_tree_src_Dir generate_directory_tree_src_NoAccess
        generate_directory_tree_src_File tree_items_src_def parts_def splitroot_def
        locked_project_def a_py_def EXCLUSION_PATTERNS_src_def lit_def Let_def)
  show "generate_src (example_world (Some locked_project) (Some (lit ''key'')))
         \<lparr>client = lit ''key'', project_path_src = lit ''proj'', max_chars_per_file_src = 5000\<rparr> False
       = ([], Inl (PermissionError [lit ''proj'', lit ''locked'']))"
    by (simp add: generate_src_def get_context_src_def example_world_def t)
qed


section \<open>Dry runs make no request to the remote endpoint (C3)\<close>

lemma remote_calls_simps:
  "remote_calls [] = 0"
  "remote_calls (evs @ evs') = remote_calls evs + remote_calls evs'"
  "remote_calls (Print s # evs) = remote_calls evs"
  "remote_calls (Sleep n # evs) = remote_calls evs"
  "remote_calls (RemoteCall m contents # evs) = Suc (remote_calls evs)"
  by (simp_all add: remote_calls_def)

lemma generate_dry_run:
  "\<exists>tree. generate_directory_tree (project_path agent) (target w) = Inr tree \<and>
     generate w agent True
       = ([], Inr (if get_file_summaries agent (target w) = []
                   then lit ''Error: No valid files found in the directory. Cannot generate README.''
                   else dry_run_preview (get_file_summaries agent (target w))
                          (build_context tree (get_file_summaries agent (target w)))))"
proof -
  from generate_directory_tree_total obtain tree where
    t: "generate_directory_tree (project_path agent) (target w) = Inr tree" by blast
  then have "generate w agent True
       = ([], Inr (if get_file_summaries agent (target w) = []
                   then lit ''Error: No valid files found in the directory. Cannot generate README.''
                   else dry_run_preview (get_file_summaries agent (target w))
                          (build_context tree (get_file_summaries agent (target w)))))"
    by (simp add: generate_def Let_def)
  with t show ?thesis by blast
qed

lemma generate_src_dry_run:
  "generate_src w agent True
     = ([], case get_context_src w agent of
              Inl e \<Rightarrow> Inl e
            | Inr context \<Rightarrow>
                Inr (lit ''--- DRY RUN COMPLETE ---\<newline>Review the gathered context above. No LLM was called.''))"
  by (cases "get_context_src w agent") (simp_all add: generate_src_def)

lemma main_events:
  "main agent_init agent_generate w a = (evs, status) \<Longrightarrow>
     (\<exists>s. evs = [Print s]) \<or>
     (\<exists>agent gen_evs r s. agent_init (directory_path a) (max_chars a) = Inr agent \<and>
        agent_generate agent (dry_run a) = (gen_evs, r) \<and> evs = gen_evs @ [Print s])"
  by (auto simp add: main_def split: option.splits if_splits sum.splits prod.splits)

text \<open>
  C3, as the code has it. With the dry-run flag set \<open>generate\<close> makes no request to the
  remote endpoint, whatever the credential and the project: in \<open>src/app\<close> it has no effect
  and returns the preview of the context, or the no-valid-files error text when no file
  was summarised; in \<open>src/src\<close> it has no effect and returns the dry-run message, or
  raises what gathering the context raises. A whole run of either driver with the flag
  set makes no request.
\<close>

theorem dry_run_no_remote_call:
  "(\<exists>tree. generate_directory_tree (project_path agent) (target w) = Inr tree \<and>
      generate w agent True
        = ([], Inr (if get_file_summaries agent (target w) = []
                    then lit ''Error: No valid files found in the directory. Cannot generate README.''
                    else dry_run_preview (get_file_summaries agent (target w))
                           (build_context tree (get_file_summaries agent (target w))))))
   \<and> remote_calls (fst (generate w agent True)) = 0
   \<and> generate_src w agent_src True
       = ([], case get_context_src w agent_src of
                Inl e \<Rightarrow> Inl e
              | Inr context \<Rightarrow>
                  Inr (lit ''--- DRY RUN COMPLETE ---\<newline>Review the gathered context above. No LLM was called.''))
   \<and> remote_calls (fst (generate_src w agent_src True)) = 0
   \<and> (dry_run a \<longrightarrow> remote_calls (fst (main_app w a)) = 0 \<and> remote_calls (fst (main_src w a)) = 0)"
proof (intro conjI impI)
  show "\<exists>tree. generate_directory_tree (project_path agent) (target w) = Inr tree \<and>
      generate w agent True
        = ([], Inr (if get_file_summaries agent (target w) = []
                    then lit ''Error: No valid files found in the directory. Cannot generate README.''
                    else dry_run_preview (get_file_summaries agent (target w))
                           (build_context tree (get_file_summaries agent (target w)))))"
    by (rule generate_dry_run)
  from generate_dry_run [of agent w] show "remote_calls (fst (generate w agent True)) = 0"
    by (auto simp add: remote_calls_simps)
  show "generate_src w agent_src True
       = ([], case get_context_src w agent_src of
                Inl e \<Rightarrow> Inl e
              | Inr context \<Rightarrow>
                  Inr (lit ''--- DRY RUN COMPLETE ---\<newline>Review the gathered context above. No LLM was called.''))"
    by (rule generate_src_dry_run)
  show "remote_calls (fst (generate_src w agent_src True)) = 0"
    by (simp add: generate_src_dry_run remote_calls_simps)
next
  assume d: "dry_run a"
  obtain evs status where m: "main_app w a = (evs, status)" by (cases "main_app w a")
  from main_events [OF m [unfolded main_app_def]] d
  have "remote_calls evs = 0"
  proof (elim disjE exE conjE)
    fix s assume "evs = [Print s]"
    then show ?thesis by (simp add: remote_calls_simps)
  next
    fix agent gen_evs r s
    assume "generate w agent (dry_run a) = (gen_evs, r)" and e: "evs = gen_evs @ [Print s]"
    with d generate_dry_run [of agent w] have "gen_evs = []" by auto
    with e show ?thesis by (simp add: remote_calls_simps)
  qed
  with m show "remote_calls (fst (main_app w a)) = 0" by simp
  obtain evs' status' where m': "main_src w a = (evs', status')" by (cases "main_src w a")
  from main_events [OF m' [unfolded main_src_def]] d
  have "remote_calls evs' = 0"
  proof (elim disjE exE conjE)
    fix s assume "evs' = [Print s]"
    then show ?thesis by (simp add: remote_calls_simps)
  next
    fix agent gen_evs r s
    assume "generate_src w agent (dry_run a) = (gen_evs, r)" and e: "evs' = gen_evs @ [Print s]"
    with d generate_src_dry_run [of w agent] have "gen_evs = []" by auto
    with e show ?thesis by (simp add: remote_calls_simps)
  qed
  with m' show "remote_calls (fst (main_src w a)) = 0" by simp
qed


theorem dry_run_no_remote_call_witness:
  "dry_run \<lparr>directory_path = lit ''proj'', dry_run = True, max_chars = 5000\<rparr>
   \<and> remote_calls (fst (main_app (example_world (Some two_files) (Some (lit ''key'')))
         \<lparr>directory_path = lit ''proj'', dry_run = True, max_chars = 5000\<rparr>)) = 0
   \<and> remote_calls (fst (main_src (example_world (Some two_files) (Some (lit ''key'')))
         \<lparr>directory_path = lit ''proj'', dry_run = True, max_chars = 5000\<rparr>)) = 0
   \<and> generate (example_world (Some two_files) (Some (lit ''key'')))
         (READMEAgent_init (Some (lit ''key'')) (lit ''proj'') 5000) True
       = ([], Inr (dry_run_preview
            [\<lparr>path = lit ''a.py'', extension = lit ''.py'', summary = Some (lit ''Content of a.py''),
              content = Some (lit ''0123456789ABCDEFGHIJ'')\<rparr>]
            (build_context
               (lit ''proj/\<newline>'' @ [9500, 9472, 9472, 32] @ lit ''a.py\<newline>''
                @ [9492, 9472, 9472, 32] @ lit ''e.txt\<newline>'')
               [\<lparr>path = lit ''a.py'', extension = lit ''.py'', summary = Some (lit ''Content of a.py''),
                 content = Some (lit ''0123456789ABCDEFGHIJ'')\<rparr>])))
   \<and> generate_src (example_world (Some two_files) (Some (lit ''key'')))
         \<lparr>client = lit ''key'', project_path_src = lit ''proj'', max_chars_per_file_src = 5000\<rparr> True
       = ([], Inr (lit ''--- DRY RUN COMPLETE ---\<newline>Review the gathered context above. No LLM was called.''))"
proof -
  let ?w = "example_world (Some two_files) (Some (lit ''key''))"
  let ?a = "\<lparr>directory_path = lit ''proj'', dry_run = True, max_chars = 5000\<rparr>"
  let ?agent = "READMEAgent_init (Some (lit ''key'')) (lit ''proj'') 5000"
  let ?agent_src = "\<lparr>client = lit ''key'', project_path_src = lit ''proj'', max_chars_per_file_src = 5000\<rparr>"
  let ?s = "\<lparr>path = lit ''a.py'', extension = lit ''.py'', summary = Some (lit ''Content of a.py''),
              content = Some (lit ''0123456789ABCDEFGHIJ'')\<rparr>"
  note th = dry_run_no_remote_call [of ?agent ?w ?agent_src ?a]
  have d: "dry_run ?a" by simp
  from th d have m: "remote_calls (fst (main_app ?w ?a)) = 0" "remote_calls (fst (main_src ?w ?a)) = 0"
    by blast+
  have t: "generate_directory_tree (project_path ?agent) (target ?w)
       = Inr (lit ''proj/\<newline>'' @ [9500, 9472, 9472, 32] @ lit ''a.py\<newline>''
              @ [9492, 9472, 9472, 32] @ lit ''e.txt\<newline>'')"
    by (simp add: READMEAgent_init_def example_world_def generate_directory_tree_def
        add_to_tree_Dir add_to_tree_NoAccess add_to_tree_File tree_entries_def lower_def
        lower_cp_def less_eq_prod_def Let_def two_files_def e_txt_def a_py_def parts_def
        splitroot_def path_name_def has_root_def EXCLUSION_PATTERNS_def lit_def)
  have g: "get_file_summaries ?agent (target ?w) = [?s]"
    by (simp add: get_file_summaries_def summarise_def read_file_content_def truncate_content_def
        READMEAgent_init_def example_world_def list_files_def Let_def two_files_def e_txt_def
        a_py_def parts_def splitroot_def path_suffix_def path_name_def has_root_def
        suffix_of_name_def relative_to_def path_str_def SUPPORTED_EXTENSIONS_def
        EXCLUSION_PATTERNS_def lit_def)
  from th [THEN conjunct1] t g
  have ga: "generate ?w ?agent True
       = ([], Inr (dry_run_preview [?s]
            (build_context
               (lit ''proj/\<newline>'' @ [9500, 9472, 9472, 32] @ lit ''a.py\<newline>''
                @ [9492, 9472, 9472, 32] @ lit ''e.txt\<newline>'') [?s])))"
    by auto
  have c: "\<exists>context. get_context_src ?w ?agent_src = Inr context"
    by (simp add: get_context_src_def example_world_def tree_src_def generate_directory_tree_src_Dir
        generate_directory_tree_src_NoAccess generate_directory_tree_src_File tree_items_src_def
        Let_def two_files_def e_txt_def a_py_def parts_def splitroot_def
        EXCLUSION_PATTERNS_src_def lit_def)
  with th [THEN conjunct2, THEN conjunct2, THEN conjunct1]
  have gs: "generate_src ?w ?agent_src True
       = ([], Inr (lit ''--- DRY RUN COMPLETE ---\<newline>Review the gathered context above. No LLM was called.''))"
    by auto
  from d m ga gs show ?thesis by (intro conjI)
qed

text \<open>
  C3 as stated fails where it says that a preview is returned: for a project in which no
  file is summarised, here one that holds an image only, \<open>generate\<close> of \<open>src/app\<close> returns
  the no-valid-files error text in a dry run too; and for a project with a directory that
  cannot be listed, \<open>generate\<close> of \<open>src/src\<close> raises instead of returning.
\<close>

theorem dry_run_preview_counterexample:
  "generate (example_world (Some image_only) (Some (lit ''key'')))
     (READMEAgent_init (Some (lit ''key'')) (lit ''proj'') 5000) True
     = ([], Inr (lit ''Error: No valid files found in the directory. Cannot generate README.''))
   \<and> generate_src (example_world (Some locked_project) (Some (lit ''key'')))
         \<lparr>client = lit ''key'', project_path_src = lit ''proj'', max_chars_per_file_src = 5000\<rparr> True
       = ([], Inl (PermissionError [lit ''proj'', lit ''locked'']))"
proof -
  have g: "get_file_summaries (READMEAgent_init (Some (lit ''key'')) (lit ''proj'') 5000) (Some image_only) = []"
    by (simp add: get_file_summaries_def READMEAgent_init_def list_files_def image_only_def
        b_png_def parts_def splitroot_def path_suffix_def path_name_def has_root_def
        suffix_of_name_def SUPPORTED_EXTENSIONS_def EXCLUSION_PATTERNS_def lit_def)
  from generate_directory_tree_total obtain tree where
    "generate_directory_tree (lit ''proj'') (Some image_only) = Inr tree" by blast
  with g have 1: "generate (example_world (Some image_only) (Some (lit ''key'')))
     (READMEAgent_init (Some (lit ''key'')) (lit ''proj'') 5000) True
     = ([], Inr (lit ''Error: No valid files found in the directory. Cannot generate README.''))"
    by (simp add: generate_def example_world_def READMEAgent_init_def)
  have t: "tree_src (lit ''proj'') (Some locked_project)
       = Inl (PermissionError [lit ''proj'', lit ''locked''])"
    by (simp add: tree_src_def generate_directory_tree_src_Dir generate_directory_tree_src_NoAccess
        generate_directory_tree_src_File tree_items_src_def parts_def splitroot_def
        locked_project_def a_py_def EXCLUSION_PATTERNS_src_def lit_def Let_def)
  have 2: "generate_src (example_world (Some locked_project) (Some (lit ''key'')))
         \<lparr>client = lit ''key'', project_path_src = lit ''proj'', max_chars_per_file_src = 5000\<rparr> True
       = ([], Inl (PermissionError [lit ''proj'', lit ''locked'']))"
    by (simp add: generate_src_def get_context_src_def example_world_def t)
  from 1 2 show ?thesis by simp
qed


section \<open>Runs without the API credential (C4)\<close>


lemma main_app_runs:
  assumes "target w = Some n" and "is_dir n"
    and "generate w (READMEAgent_init (api_key w) (directory_path a) (max_chars a)) (dry_run a) = (evs, Inr result)"
  shows "main_app w a = (evs @ [Print result], 0)"
  using assms by (simp add: main_app_def main_def)






section \<open>Failures of the remote call and the exit status (C7, C8)\<close>


lemma generate_remote_failure:
  assumes "model agent = Some m"
    and "generate_directory_tree (project_path agent) (target w) = Inr tree"
    and "get_file_summaries agent (target w) \<noteq> []"
    and "remote w m [construct_system_prompt,
           lit ''Here is the codebase information:\<newline>\<newline>''
           @ build_context tree (get_file_summaries agent (target w))] = Inl e"
  shows "generate w agent False
           = ([RemoteCall m [construct_system_prompt,
                 lit ''Here is the codebase information:\<newline>\<newline>''
                 @ build_context tree (get_file_summaries agent (target w))]],
              Inr (lit ''Error generating README: '' @ e))"
  using assms by (simp add: generate_def Let_def)

lemma generate_src_remote_failure:
  assumes "get_context_src w agent = Inr ctx"
    and "remote w MODEL_NAME_src
           [lit ''Act as a professional software engineer. Based on the following ''
            @ lit ''project tree and file contents, generate a high-quality, ''
            @ lit ''comprehensive README.md in Markdown format. Include installation, ''
            @ lit ''usage, and a tech stack section.\<newline>\<newline>''
            @ ctx] = Inl e"
  shows "generate_src w agent False
           = ([Print (lit ''Respecting API Quota: Waiting 12s cooldown...''), Sleep 12,
               RemoteCall MODEL_NAME_src
                 [lit ''Act as a professional software engineer. Based on the following ''
                  @ lit ''project tree and file contents, generate a high-quality, ''
                  @ lit ''comprehensive README.md in Markdown format. Include installation, ''
                  @ lit ''usage, and a tech stack section.\<newline>\<newline>''
                  @ ctx]],
              Inr (lit ''An error occurred while generating the README: '' @ e))"
  using assms by (simp add: generate_src_def Let_def)

lemma main_src_runs:
  assumes "target w = Some n" and "is_dir n"
    and "READMEAgent_src_init (api_key w) (directory_path a) (max_chars a) = Inr agent"
    and "generate_src w agent (dry_run a) = (evs, Inr result)"
  shows "main_src w a = (evs @ [Print result], 0)"
  using assms by (simp add: main_src_def main_def)

text \<open>
  C7. When the request to the remote endpoint raises, with failure description \<open>e\<close>,
  \<open>generate\<close> catches the exception and returns the error text of its variant ending in
  \<open>e\<close>, after the one request; the driver prints that text and the process exits with
  status 0.
\<close>

theorem remote_failure_reported:
  "(model agent = Some m \<and>
    generate_directory_tree (project_path agent) (target w) = Inr tree \<and>
    get_file_summaries agent (target w) \<noteq> [] \<and>
    remote w m [construct_system_prompt,
       lit ''Here is the codebase information:\<newline>\<newline>''
       @ build_context tree (get_file_summaries agent (target w))] = Inl e \<longrightarrow>
      generate w agent False
        = ([RemoteCall m [construct_system_prompt,
              lit ''Here is the codebase information:\<newline>\<newline>''
              @ build_context tree (get_file_summaries agent (target w))]],
           Inr (lit ''Error generating README: '' @ e))
      \<and> (\<forall>n. target w = Some n \<and> is_dir n \<and> \<not> dry_run a \<and>
              agent = READMEAgent_init (api_key w) (directory_path a) (max_chars a) \<longrightarrow>
            main_app w a
              = ([RemoteCall m [construct_system_prompt,
                    lit ''Here is the codebase information:\<newline>\<newline>''
                    @ build_context tree (get_file_summaries agent (target w))],
                  Print (lit ''Error generating README: '' @ e)], 0)))
   \<and> (get_context_src w agent_src = Inr ctx \<and>
      remote w MODEL_NAME_src
         [lit ''Act as a professional software engineer. Based on the following ''
          @ lit ''project tree and file contents, generate a high-quality, ''
          @ lit ''comprehensive README.md in Markdown format. Include installation, ''
          @ lit ''usage, and a tech stack section.\<newline>\<newline>''
          @ ctx] = Inl e \<longrightarrow>
      generate_src w agent_src False
        = ([Print (lit ''Respecting API Quota: Waiting 12s cooldown...''), Sleep 12,
            RemoteCall MODEL_NAME_src
              [lit ''Act as a professional software engineer. Based on the following ''
               @ lit ''project tree and file contents, generate a high-quality, ''
               @ lit ''comprehensive README.md in Markdown format. Include installation, ''
               @ lit ''usage, and a tech stack section.\<newline>\<newline>''
               @ ctx]],
           Inr (lit ''An error occurred while generating the README: '' @ e))
      \<and> (\<forall>n. target w = Some n \<and> is_dir n \<and> \<not> dry_run a \<and>
              READMEAgent_src_init (api_key w) (directory_path a) (max_chars a) = Inr agent_src \<longrightarrow>
            main_src w a
              = ([Print (lit ''Respecting API Quota: Waiting 12s cooldown...''), Sleep 12,
                  RemoteCall MODEL_NAME_src
                    [lit ''Act as a professional software engineer. Based on the following ''
                     @ lit ''project tree and file contents, generate a high-quality, ''
                     @ lit ''comprehensive README.md in Markdown format. Include installation, ''
                     @ lit ''usage, and a tech stack section.\<newline>\<newline>''
                     @ ctx],
                  Print (lit ''An error occurred while generating the README: '' @ e)], 0)))"
proof (intro conjI impI allI)
  assume a: "model agent = Some m \<and>
    generate_directory_tree (project_path agent) (target w) = Inr tree \<and>
    get_file_summaries agent (target w) \<noteq> [] \<and>
    remote w m [construct_system_prompt,
       lit ''Here is the codebase information:\<newline>\<newline>''
       @ build_context tree (get_file_summaries agent (target w))] = Inl e"
  then show g: "generate w agent False
        = ([RemoteCall m [construct_system_prompt,
              lit ''Here is the codebase information:\<newline>\<newline>''
              @ build_context tree (get_file_summaries agent (target w))]],
           Inr (lit ''Error generating README: '' @ e))"
    by (intro generate_remote_failure) simp_all
  fix n
  assume b: "target w = Some n \<and> is_dir n \<and> \<not> dry_run a \<and>
              agent = READMEAgent_init (api_key w) (directory_path a) (max_chars a)"
  with g main_app_runs [of w n a] show "main_app w a
              = ([RemoteCall m [construct_system_prompt,
                    lit ''Here is the codebase information:\<newline>\<newline>''
                    @ build_context tree (get_file_summaries agent (target w))],
                  Print (lit ''Error generating README: '' @ e)], 0)"
    by simp
next
  assume a: "get_context_src w agent_src = Inr ctx \<and>
      remote w MODEL_NAME_src
         [lit ''Act as a professional software engineer. Based on the following ''
          @ lit ''project tree and file contents, generate a high-quality, ''
          @ lit ''comprehensive README.md in Markdown format. Include installation, ''
          @ lit ''usage, and a tech stack section.\<newline>\<newline>''
          @ ctx] = Inl e"
  then show g: "generate_src w agent_src False
        = ([Print (lit ''Respecting API Quota: Waiting 12s cooldown...''), Sleep 12,
            RemoteCall MODEL_NAME_src
              [lit ''Act as a professional software engineer. Based on the following ''
               @ lit ''project tree and file contents, generate a high-quality, ''
               @ lit ''comprehensive README.md in Markdown format. Include installation, ''
               @ lit ''usage, and a tech stack section.\<newline>\<newline>''
               @ ctx]],
           Inr (lit ''An error occurred while generating the README: '' @ e))"
    by (intro generate_src_remote_failure) simp_all
  fix n
  assume b: "target w = Some n \<and> is_dir n \<and> \<not> dry_run a \<and>
              READMEAgent_src_init (api_key w) (directory_path a) (max_chars a) = Inr agent_src"
  with g main_src_runs [of w n a agent_src] show "main_src w a
              = ([Print (lit ''Respecting API Quota: Waiting 12s cooldown...''), Sleep 12,
                  RemoteCall MODEL_NAME_src
                    [lit ''Act as a professional software engineer. Based on the following ''
                     @ lit ''project tree and file contents, generate a high-quality, ''
                     @ lit ''comprehensive README.md in Markdown format. Include installation, ''
                     @ lit ''usage, and a tech stack section.\<newline>\<newline>''
                     @ ctx],
                  Print (lit ''An error occurred while generating the README: '' @ e)], 0)"
    by simp
qed

theorem remote_failure_reported_witness:
  "main_app (example_world (Some example_project) (Some (lit ''key'')))
      \<lparr>directory_path = lit ''proj'', dry_run = False, max_chars = 5000\<rparr>
     = ([RemoteCall (lit ''gemini-2.0-flash'')
           [construct_system_prompt,
            lit ''Here is the codebase information:\<newline>\<newline>''
            @ build_context
                (lit ''proj/\<newline>'' @ [9500, 9472, 9472, 32] @ lit ''a.py\<newline>''
                 @ [9492, 9472, 9472, 32] @ lit ''b.png\<newline>'')
                [\<lparr>path = lit ''a.py'', extension = lit ''.py'',
                  summary = Some (lit ''Content of a.py''),
                  content = Some (lit ''0123456789ABCDEFGHIJ'')\<rparr>]],
         Print (lit ''Error generating README: '' @ lit ''429 quota exceeded'')], 0)
   \<and> (\<exists>ctx.
        get_context_src (example_world (Some example_project) (Some (lit ''key'')))
          \<lparr>client = lit ''key'', project_path_src = lit ''proj'', max_chars_per_file_src = 5000\<rparr>
          = Inr ctx \<and>
        main_src (example_world (Some example_project) (Some (lit ''key'')))
          \<lparr>directory_path = lit ''proj'', dry_run = False, max_chars = 5000\<rparr>
          = ([Print (lit ''Respecting API Quota: Waiting 12s cooldown...''), Sleep 12,
              RemoteCall MODEL_NAME_src
                [lit ''Act as a professional software engineer. Based on the following ''
                 @ lit ''project tree and file contents, generate a high-quality, ''
                 @ lit ''comprehensive README.md in Markdown format. Include installation, ''
                 @ lit ''usage, and a tech stack section.\<newline>\<newline>''
                 @ ctx],
              Print (lit ''An error occurred while generating the README: '' @ lit ''429 quota exceeded'')], 0))"
proof -
  let ?w = "example_world (Some example_project) (Some (lit ''key''))"
  let ?a = "\<lparr>directory_path = lit ''proj'', dry_run = False, max_chars = 5000\<rparr>"
  let ?agent = "READMEAgent_init (api_key ?w) (directory_path ?a) (max_chars ?a)"
  let ?agent_src = "\<lparr>client = lit ''key'', project_path_src = lit ''proj'', max_chars_per_file_src = 5000\<rparr>"
  let ?s = "\<lparr>path = lit ''a.py'', extension = lit ''.py'', summary = Some (lit ''Content of a.py''),
              content = Some (lit ''0123456789ABCDEFGHIJ'')\<rparr>"
  let ?t = "lit ''proj/\<newline>'' @ [9500, 9472, 9472, 32] @ lit ''a.py\<newline>''
              @ [9492, 9472, 9472, 32] @ lit ''b.png\<newline>''"
  have tg: "target ?w = Some example_project" "is_dir example_project" "\<not> dry_run ?a"
    by (simp_all add: example_world_def example_project_def)
  have md: "model ?agent = Some (lit ''gemini-2.0-flash'')"
    by (simp add: READMEAgent_init_def example_world_def lit_def)
  have t: "generate_directory_tree (project_path ?agent) (target ?w) = Inr ?t"
    by (simp add: READMEAgent_init_def example_world_def generate_directory_tree_def
        add_to_tree_Dir add_to_tree_NoAccess add_to_tree_File tree_entries_def lower_def
        lower_cp_def less_eq_prod_def Let_def example_project_def a_py_def b_png_def x_js_def
        parts_def splitroot_def path_name_def has_root_def EXCLUSION_PATTERNS_def lit_def)
  have g: "get_file_summaries ?agent (target ?w) = [?s]"
    by (simp add: get_file_summaries_def summarise_def read_file_content_def truncate_content_def
        READMEAgent_init_def example_world_def list_files_def Let_def example_project_def
        a_py_def b_png_def x_js_def parts_def splitroot_def path_suffix_def path_name_def
        has_root_def suffix_of_name_def relative_to_def path_str_def SUPPORTED_EXTENSIONS_def
        EXCLUSION_PATTERNS_def lit_def)
  have r: "remote ?w m contents = Inl (lit ''429 quota exceeded'')" for m contents
    by (simp add: example_world_def)
  obtain ctx where c: "get_context_src ?w ?agent_src = Inr ctx"
    by (simp add: get_context_src_def example_world_def tree_src_def generate_directory_tree_src_Dir
        generate_directory_tree_src_NoAccess generate_directory_tree_src_File tree_items_src_def
        Let_def example_project_def a_py_def b_png_def x_js_def parts_def splitroot_def
        EXCLUSION_PATTERNS_src_def lit_def)
  have i: "READMEAgent_src_init (api_key ?w) (directory_path ?a) (max_chars ?a) = Inr ?agent_src"
    by (simp add: READMEAgent_src_init_def example_world_def opt_str_def lit_def)
  note th = remote_failure_reported [where agent = ?agent and m = "lit ''gemini-2.0-flash''"
      and w = ?w and tree = ?t and e = "lit ''429 quota exceeded''" and a = ?a
      and agent_src = ?agent_src and ctx = ctx]
  from th [THEN conjunct1] md t g r tg
  have ma: "main_app ?w ?a
     = ([RemoteCall (lit ''gemini-2.0-flash'')
           [construct_system_prompt,
            lit ''Here is the codebase information:\<newline>\<newline>'' @ build_context ?t [?s]],
         Print (lit ''Error generating README: '' @ lit ''429 quota exceeded'')], 0)"
    by simp
  from th [THEN conjunct2] c r tg i
  have ms: "main_src ?w ?a
          = ([Print (lit ''Respecting API Quota: Waiting 12s cooldown...''), Sleep 12,
              RemoteCall MODEL_NAME_src
                [lit ''Act as a professional software engineer. Based on the following ''
                 @ lit ''project tree and file contents, generate a high-quality, ''
                 @ lit ''comprehensive README.md in Markdown format. Include installation, ''
                 @ lit ''usage, and a tech stack section.\<newline>\<newline>''
                 @ ctx],
              Print (lit ''An error occurred while generating the README: '' @ lit ''429 quota exceeded'')], 0)"
    by simp
  from ma c ms show ?thesis by blast
qed




end
